theory Spec2Isabelle
  imports Complex_Main
begin

section \<open>JavaScript values used by the block move event\<close>

text \<open>
  A JavaScript number is modelled as an exact rational or \<open>NaN\<close>; the infinities are
  outside this model. The numbers of the code are doubles: its arithmetic rounds every
  result to the nearest double, and its number text is exact only for integers below
  \<open>2^53\<close> in magnitude. Every double is a rational, and the model agrees with the code
  where no rounding takes place: on integers whose sums and differences stay within
  \<open>2^53\<close> in magnitude. The statements below that depend on the value of a computed
  coordinate or on the text of a number are restricted to that range.
\<close>

datatype jsnum = Num rat | NaN

text \<open>
  The operators \<open>-\<close>, \<open>+\<close> and \<open>===\<close> on numbers: \<open>NaN\<close> propagates and equals nothing.
  Difference and sum are computed exactly, without the rounding of doubles.
\<close>

fun num_sub :: "jsnum \<Rightarrow> jsnum \<Rightarrow> jsnum" where
  "num_sub (Num a) (Num b) = Num (a - b)"
| "num_sub _ _ = NaN"

fun num_add :: "jsnum \<Rightarrow> jsnum \<Rightarrow> jsnum" where
  "num_add (Num a) (Num b) = Num (a + b)"
| "num_add _ _ = NaN"

fun num_eq :: "jsnum \<Rightarrow> jsnum \<Rightarrow> bool" where
  "num_eq (Num a) (Num b) = (a = b)"
| "num_eq _ _ = False"

text \<open>\<open>Math.round\<close> rounds to the nearest integer, a half towards plus infinity.\<close>

definition Math_round :: "rat \<Rightarrow> int" where
  "Math_round r = \<lfloor>r + 1 / 2\<rfloor>"

text \<open>
  The decimal text of an integer. A template literal prints these digits for an integer
  below \<open>2^53\<close> in magnitude; for a larger one it prints the shortest digits that
  identify the double, and exponent notation from \<open>10^21\<close> on.
\<close>

definition digit_char :: "nat \<Rightarrow> char" where
  "digit_char d = ''0123456789'' ! d"

fun show_nat :: "nat \<Rightarrow> string" where
  "show_nat n =
     (if n < 10 then [digit_char n] else show_nat (n div 10) @ [digit_char (n mod 10)])"

definition show_int :: "int \<Rightarrow> string" where
  "show_int i = (if i < 0 then CHR ''-'' # show_nat (nat (- i)) else show_nat (nat i))"

text \<open>
  The text a template literal gives for \<open>Math.round(v)\<close>, for a rounded value below
  \<open>2^53\<close> in magnitude.
\<close>

fun round_text :: "jsnum \<Rightarrow> string" where
  "round_text (Num r) = show_int (Math_round r)"
| "round_text NaN = ''NaN''"

text \<open>
  \<open>Number(s)\<close> on the literals this development needs, which are the texts \<open>toJson\<close>
  writes: white space around the text is dropped, the empty text is 0, an optionally
  signed run of decimal digits is its value (exactly; the code rounds it to a double
  beyond \<open>2^53\<close>). \<open>undefined\<close> gives \<open>NaN\<close>. Literals with a fraction, an exponent or
  a radix prefix and \<open>Infinity\<close> are outside this model, which gives \<open>NaN\<close> for them as
  for the texts that are no number.
\<close>

definition digit_val :: "char \<Rightarrow> nat option" where
  "digit_val c =
     (let k = length (takeWhile (\<lambda>d. d \<noteq> c) ''0123456789'')
      in if k < 10 then Some k else None)"

fun parse_digits :: "nat \<Rightarrow> string \<Rightarrow> nat option" where
  "parse_digits acc [] = Some acc"
| "parse_digits acc (c # cs) =
     (case digit_val c of None \<Rightarrow> None | Some d \<Rightarrow> parse_digits (10 * acc + d) cs)"

definition is_space :: "char \<Rightarrow> bool" where
  "is_space c = (c = CHR '' '' \<or> c = CHR 0x09 \<or> c = CHR 0x0A \<or> c = CHR 0x0B
     \<or> c = CHR 0x0C \<or> c = CHR 0x0D)"

definition trim :: "string \<Rightarrow> string" where
  "trim s = rev (dropWhile is_space (rev (dropWhile is_space s)))"

definition parse_unsigned :: "string \<Rightarrow> jsnum" where
  "parse_unsigned s =
     (if s = [] then NaN
      else case parse_digits 0 s of None \<Rightarrow> NaN | Some n \<Rightarrow> Num (of_nat n))"

definition Number_str :: "string option \<Rightarrow> jsnum" where
  "Number_str v =
     (case v of
        None \<Rightarrow> NaN
      | Some s \<Rightarrow>
          (case trim s of
             [] \<Rightarrow> Num 0
           | c # cs \<Rightarrow>
               if c = CHR ''-'' then num_sub (Num 0) (parse_unsigned cs)
               else if c = CHR ''+'' then parse_unsigned cs
               else parse_unsigned (c # cs)))"

text \<open>\<open>s.split(d)\<close> for a one-character separator, and indexing that may be undefined.\<close>

fun split_on :: "char \<Rightarrow> string \<Rightarrow> string \<Rightarrow> string list" where
  "split_on d acc [] = [rev acc]"
| "split_on d acc (c # cs) =
     (if c = d then rev acc # split_on d [] cs else split_on d (c # acc) cs)"

definition split_str :: "string \<Rightarrow> char \<Rightarrow> string list" where
  "split_str s d = split_on d [] s"

fun nth_opt :: "'a list \<Rightarrow> nat \<Rightarrow> 'a option" where
  "nth_opt [] n = None"
| "nth_opt (v # vs) 0 = Some v"
| "nth_opt (v # vs) (Suc n) = nth_opt vs n"

text \<open>A value of type \<open>string | undefined\<close> is truthy when it is a non-empty string.\<close>

fun truthy :: "string option \<Rightarrow> bool" where
  "truthy None = False"
| "truthy (Some s) = (s \<noteq> [])"

text \<open>The string a test such as \<open>if (inputName)\<close> lets through.\<close>

fun truthy_value :: "string option \<Rightarrow> string option" where
  "truthy_value None = None"
| "truthy_value (Some s) = (if s = [] then None else Some s)"

text \<open>Appending a value of type \<open>string | undefined\<close> to a string.\<close>

fun js_text :: "string option \<Rightarrow> string" where
  "js_text None = ''undefined''"
| "js_text (Some s) = s"

text \<open>
  The values a property of the serialized event holds. A key of the keyed structure is
  either absent, or present with a value, which may be \<open>undefined\<close>.
\<close>

datatype jsvalue = JUndefined | JString string | JBoolean bool

type_synonym json = "string \<rightharpoonup> jsvalue"

fun js_string :: "string option \<Rightarrow> jsvalue" where
  "js_string None = JUndefined"
| "js_string (Some s) = JString s"

text \<open>Reading \<open>json[key]\<close> at a property typed \<open>string | undefined\<close>.\<close>

fun get_string :: "json \<Rightarrow> string \<Rightarrow> string option" where
  "get_string j k = (case j k of Some (JString s) \<Rightarrow> Some s | _ \<Rightarrow> None)"

subsection \<open>Coordinates\<close>

text \<open>
  Modelled from the spec: an absolute coordinate, the class \<open>Coordinate\<close> of
  utils/coordinate.ts, with its fields \<open>x\<close> and \<open>y\<close>.
\<close>

datatype Coordinate = Coordinate (x_coord: jsnum) (y_coord: jsnum)

text \<open>
  Modelled from the spec: \<open>Coordinate.equals\<close> (utils/coordinate.ts is not among the
  sources). The spec compares coordinates for equality "treating undefined as equal to
  undefined"; the components are compared with \<open>===\<close>.
\<close>

fun Coordinate_equals :: "Coordinate option \<Rightarrow> Coordinate option \<Rightarrow> bool" where
  "Coordinate_equals None None = True"
| "Coordinate_equals (Some a) (Some b) =
     (num_eq (x_coord a) (x_coord b) \<and> num_eq (y_coord a) (y_coord b))"
| "Coordinate_equals _ _ = False"

section \<open>The live document\<close>

text \<open>
  The live document the events act on is not among the sources (block.ts,
  connection.ts, input.ts and workspace.ts are missing). The spec gives its interface:
  \<open>getEntityById\<close>, \<open>getParentOf\<close> and the mutation primitives \<open>connect\<close>,
  \<open>disconnect\<close> and \<open>setPosition\<close>, and says that a block is either connected to a
  parent or free-floating. Each definition of this section is modelled from those
  words, under the name the source calls it by. A block object is referred to by its
  id. What happens to a block that already occupies the parent's connection, and the
  compatibility check of two connections, are not modelled.
\<close>

text \<open>
  Modelled from the spec: the connection types of connection_type.ts; the source names
  only \<open>PREVIOUS_STATEMENT\<close>.
\<close>

datatype ConnectionType = INPUT_VALUE | OUTPUT_VALUE | NEXT_STATEMENT | PREVIOUS_STATEMENT

text \<open>
  Modelled from the spec: a connection object ("named connection point"), given by the
  block that owns it, its place on that block and its type.
\<close>

datatype Port = OutputPort | PreviousPort | NextPort | InputPort string

record Connection =
  sourceBlock :: string
  port :: Port
  ctype :: ConnectionType

text \<open>
  Modelled from the spec: an input of a block, with its name and the type of its
  connection (a dummy input has none).
\<close>

record Input =
  name :: string
  input_type :: "ConnectionType option"

text \<open>
  Modelled from the spec: a block, with its id, whether it is a shadow, the connections
  it has, its inputs, its position, and the connection it is plugged into: the pair of
  its own output or previous connection and the parent's connection that holds it. The
  parent of a block is the owner of that connection.
\<close>

record Block =
  block_id :: string
  isShadow :: bool
  hasOutput :: bool
  hasPrevious :: bool
  hasNext :: bool
  inputList :: "Input list"
  xy :: Coordinate
  plugged :: "(Connection \<times> Connection) option"

text \<open>Modelled from the spec: a workspace, with its id and its blocks.\<close>

record Workspace =
  workspace_id :: string
  blocks :: "Block list"

text \<open>Modelled from the spec: \<open>workspace.getBlockById\<close> (\<open>getEntityById\<close>).\<close>

definition getBlockById :: "Workspace \<Rightarrow> string \<Rightarrow> Block option" where
  "getBlockById workspace i = find (\<lambda>b. block_id b = i) (blocks workspace)"

text \<open>
  Modelled from the spec: the effect of mutating a block object in place. The block
  of the workspace with that id is the changed one.
\<close>

definition setBlock :: "Workspace \<Rightarrow> Block \<Rightarrow> Workspace" where
  "setBlock workspace b =
     workspace\<lparr>blocks := map (\<lambda>c. if block_id c = block_id b then b else c) (blocks workspace)\<rparr>"

text \<open>Modelled from the spec: \<open>block.outputConnection\<close>, null when the block has none.\<close>

definition outputConnection :: "Block \<Rightarrow> Connection option" where
  "outputConnection b =
     (if hasOutput b
      then Some \<lparr>sourceBlock = block_id b, port = OutputPort, ctype = OUTPUT_VALUE\<rparr>
      else None)"

text \<open>Modelled from the spec: \<open>block.previousConnection\<close>, null when the block has none.\<close>

definition previousConnection :: "Block \<Rightarrow> Connection option" where
  "previousConnection b =
     (if hasPrevious b
      then Some \<lparr>sourceBlock = block_id b, port = PreviousPort, ctype = PREVIOUS_STATEMENT\<rparr>
      else None)"

text \<open>Modelled from the spec: \<open>block.nextConnection\<close>, null when the block has none.\<close>

definition nextConnection :: "Block \<Rightarrow> Connection option" where
  "nextConnection b =
     (if hasNext b
      then Some \<lparr>sourceBlock = block_id b, port = NextPort, ctype = NEXT_STATEMENT\<rparr>
      else None)"

text \<open>Modelled from the spec: \<open>input.connection\<close>, for an input of block \<open>b\<close>.\<close>

definition connection :: "Block \<Rightarrow> Input \<Rightarrow> Connection option" where
  "connection b input =
     map_option (\<lambda>t. \<lparr>sourceBlock = block_id b, port = InputPort (name input), ctype = t\<rparr>)
       (input_type input)"

text \<open>Modelled from the spec: \<open>block.getInput(name)\<close>, the first input of that name.\<close>

definition getInput :: "Block \<Rightarrow> string \<Rightarrow> Input option" where
  "getInput b n = find (\<lambda>input. name input = n) (inputList b)"

text \<open>
  Modelled from the spec: \<open>connection.isConnected()\<close>, for the output or previous
  connection \<open>c\<close> of block \<open>b\<close>.
\<close>

definition isConnected :: "Block \<Rightarrow> Connection \<Rightarrow> bool" where
  "isConnected b c = (case plugged b of None \<Rightarrow> False | Some (own, target) \<Rightarrow> own = c)"

text \<open>
  Modelled from the spec: \<open>block.getParent()\<close> (\<open>getParentOf\<close>); the parent block is
  given by its id.
\<close>

definition getParent :: "Block \<Rightarrow> string option" where
  "getParent b = map_option (\<lambda>(own, target). sourceBlock target) (plugged b)"

text \<open>
  Modelled from the spec: \<open>parent.getInputWithBlock(block)\<close>, the first input of the
  parent whose connection holds \<open>block\<close>.
\<close>

definition getInputWithBlock :: "Workspace \<Rightarrow> string \<Rightarrow> Block \<Rightarrow> Input option" where
  "getInputWithBlock workspace parent block =
     (case getBlockById workspace parent of
        None \<Rightarrow> None
      | Some p \<Rightarrow>
          find (\<lambda>input. connection p input \<noteq> None
                  \<and> connection p input = map_option snd (plugged block)) (inputList p))"

text \<open>Modelled from the spec: \<open>block.getRelativeToSurfaceXY()\<close>, the block's position.\<close>

definition getRelativeToSurfaceXY :: "Block \<Rightarrow> Coordinate" where
  "getRelativeToSurfaceXY b = xy b"

text \<open>Modelled from the spec: \<open>block.unplug()\<close> (\<open>disconnect\<close>).\<close>

definition unplug :: "Block \<Rightarrow> Block" where
  "unplug b = b\<lparr>plugged := None\<rparr>"

text \<open>
  Modelled from the spec: \<open>block.moveBy(dx, dy)\<close> (\<open>setPosition\<close>); the offset is added
  to the position, as \<open>moveBy\<close> of workspace_comment_svg.ts does for a comment.
\<close>

definition moveBy :: "Block \<Rightarrow> jsnum \<Rightarrow> jsnum \<Rightarrow> Block" where
  "moveBy b dx dy =
     b\<lparr>xy := Coordinate (num_add (x_coord (xy b)) dx) (num_add (y_coord (xy b)) dy)\<rparr>"

text \<open>
  Modelled from the spec: \<open>blockConnection.connect(parentConnection)\<close>, for a
  connection of block \<open>b\<close>.
\<close>

definition connect :: "Block \<Rightarrow> Connection \<Rightarrow> Connection \<Rightarrow> Block" where
  "connect b blockConnection parentConnection =
     b\<lparr>plugged := Some (blockConnection, parentConnection)\<rparr>"

section \<open>The block move event\<close>

text \<open>
  The interface \<open>BlockLocation\<close> and the fields of the class \<open>BlockMove\<close>, from
  events_block_move.ts, after the fields of its base classes (the kind, the workspace
  id, the group, \<open>recordUndo\<close> and the block id, as the spec lists them).
\<close>

record BlockLocation =
  location_parentId :: "string option"
  location_inputName :: "string option"
  location_coordinate :: "Coordinate option"

record BlockMove =
  etype :: string
  workspaceId :: "string option"
  group :: string
  recordUndo :: bool
  blockId :: "string option"
  oldParentId :: "string option"
  oldInputName :: "string option"
  oldCoordinate :: "Coordinate option"
  newParentId :: "string option"
  newInputName :: "string option"
  newCoordinate :: "Coordinate option"

text \<open>
  What the code throws: an \<open>Error\<close> with its message, or the \<open>TypeError\<close> of reading
  a property of \<open>null\<close> or \<open>undefined\<close>.
\<close>

datatype error = Error string | TypeError

text \<open>
  How a call ends: it returns, or it throws; either way the document is left as the
  call changed it, and the console holds the warnings it wrote.
\<close>

datatype Completion = Returned | Thrown error

text \<open>
  Modelled from the spec: the process-wide context of the event utilities
  (events/utils.ts is not among the sources): the current group, which every event
  constructed while it is set inherits, and the default of \<open>recordUndo\<close>.
\<close>

record EventContext =
  getGroup :: string
  getRecordUndo :: bool

text \<open>
  Modelled from the spec: the kind tag of a block move event, the constant
  \<open>BLOCK_MOVE\<close> of events/utils.ts.
\<close>

definition BLOCK_MOVE :: string where
  "BLOCK_MOVE = ''move''"

text \<open>
  Modelled from the spec: the constructor of the base classes (events_abstract.ts and
  events_block_base.ts are not among the sources). The event takes its group and
  \<open>recordUndo\<close> from the context, and its block id and workspace id from the block
  when one is given.
\<close>

definition BlockBase_new :: "EventContext \<Rightarrow> Workspace \<Rightarrow> Block option \<Rightarrow> BlockMove" where
  "BlockBase_new ctx workspace opt_block =
     \<lparr>etype = BLOCK_MOVE,
      workspaceId = map_option (\<lambda>b. workspace_id workspace) opt_block,
      group = getGroup ctx,
      recordUndo = getRecordUndo ctx,
      blockId = map_option block_id opt_block,
      oldParentId = None, oldInputName = None, oldCoordinate = None,
      newParentId = None, newInputName = None, newCoordinate = None\<rparr>"

text \<open>
  Modelled from the spec: \<open>toJson\<close> of the base classes, a keyed structure with the
  kind, the group if non-empty and the block id.
\<close>

definition BlockBase_toJson :: "BlockMove \<Rightarrow> json" where
  "BlockBase_toJson this =
     (let json = [''type'' \<mapsto> JString (etype this)];
          json = (if group this \<noteq> [] then json(''group'' \<mapsto> JString (group this)) else json)
      in case blockId this of
           None \<Rightarrow> json
         | Some b \<Rightarrow> json(''blockId'' \<mapsto> JString b))"

text \<open>
  Modelled from the spec: the static \<open>fromJson\<close> of the base classes, which populates
  the given event with the workspace, the group and the block id.
\<close>

definition BlockBase_fromJson :: "json \<Rightarrow> Workspace \<Rightarrow> BlockMove \<Rightarrow> BlockMove" where
  "BlockBase_fromJson json workspace event =
     event\<lparr>workspaceId := Some (workspace_id workspace),
           group := (case get_string json ''group'' of None \<Rightarrow> [] | Some g \<Rightarrow> g),
           blockId := get_string json ''blockId''\<rparr>"

text \<open>
  The members of \<open>BlockMove\<close>, from events_block_move.ts. The workspace each takes
  is the one \<open>getEventWorkspace_\<close> gives. \<open>currentLocation\<close> is
  \<open>currentLocation_\<close>, \<open>BlockMove_new\<close> the constructor, \<open>fromJson\<close> the static
  method; in \<open>fromJson\<close>, \<open>new BlockMove()\<close> is the result of the base constructor,
  since the constructor returns right after it when no block is given.
\<close>

definition currentLocation :: "BlockMove \<Rightarrow> Workspace \<Rightarrow> error + BlockLocation" where
  "currentLocation this workspace =
     (case truthy_value (blockId this) of
        None \<Rightarrow>
          Inl (Error ''The block ID is undefined. Either pass a block to the constructor, or call fromJson'')
      | Some bid \<Rightarrow>
          (case getBlockById workspace bid of
             None \<Rightarrow>
               Inl (Error ''The block associated with the block move event could not be found'')
           | Some block \<Rightarrow>
               (case getParent block of
                  Some parent \<Rightarrow>
                    Inr \<lparr>location_parentId = Some parent,
                         location_inputName =
                           map_option name (getInputWithBlock workspace parent block),
                         location_coordinate = None\<rparr>
                | None \<Rightarrow>
                    Inr \<lparr>location_parentId = None, location_inputName = None,
                         location_coordinate = Some (getRelativeToSurfaceXY block)\<rparr>)))"

definition BlockMove_new :: "EventContext \<Rightarrow> Workspace \<Rightarrow> Block option \<Rightarrow> error + BlockMove" where
  "BlockMove_new ctx workspace opt_block =
     (let this = BlockBase_new ctx workspace opt_block in
      case opt_block of
        None \<Rightarrow> Inr this
      | Some b \<Rightarrow>
          (let this = (if isShadow b then this\<lparr>recordUndo := False\<rparr> else this) in
           case currentLocation this workspace of
             Inl err \<Rightarrow> Inl err
           | Inr location \<Rightarrow>
               Inr (this\<lparr>oldParentId := location_parentId location,
                         oldInputName := location_inputName location,
                         oldCoordinate := location_coordinate location\<rparr>)))"

definition recordNew :: "BlockMove \<Rightarrow> Workspace \<Rightarrow> error + BlockMove" where
  "recordNew this workspace =
     (case currentLocation this workspace of
        Inl err \<Rightarrow> Inl err
      | Inr location \<Rightarrow>
          Inr (this\<lparr>newParentId := location_parentId location,
                    newInputName := location_inputName location,
                    newCoordinate := location_coordinate location\<rparr>))"

text \<open>
  The template literal of \<open>toJson\<close>: the rounded x, a comma and a space, the
  rounded y.
\<close>

definition coordinate_text :: "Coordinate \<Rightarrow> string" where
  "coordinate_text c = round_text (x_coord c) @ '', '' @ round_text (y_coord c)"

definition toJson :: "BlockMove \<Rightarrow> json" where
  "toJson this =
     (let json = BlockBase_toJson this;
          json = json(''oldParentId'' \<mapsto> js_string (oldParentId this));
          json = json(''oldInputName'' \<mapsto> js_string (oldInputName this));
          json = (case oldCoordinate this of
                    None \<Rightarrow> json
                  | Some c \<Rightarrow> json(''oldCoordinate'' \<mapsto> JString (coordinate_text c)));
          json = json(''newParentId'' \<mapsto> js_string (newParentId this));
          json = json(''newInputName'' \<mapsto> js_string (newInputName this));
          json = (case newCoordinate this of
                    None \<Rightarrow> json
                  | Some c \<Rightarrow> json(''newCoordinate'' \<mapsto> JString (coordinate_text c)))
      in if \<not> recordUndo this then json(''recordUndo'' \<mapsto> JBoolean (recordUndo this))
         else json)"

text \<open>
  The coordinate \<open>fromJson\<close> builds from the text: the text is split at the commas,
  and the first two parts are read as numbers.
\<close>

definition parse_coordinate :: "string \<Rightarrow> Coordinate" where
  "parse_coordinate s =
     (let xy = split_str s CHR '','' in
      Coordinate (Number_str (nth_opt xy 0)) (Number_str (nth_opt xy 1)))"

definition fromJson :: "EventContext \<Rightarrow> json \<Rightarrow> Workspace \<Rightarrow> BlockMove option \<Rightarrow> BlockMove" where
  "fromJson ctx json workspace event =
     (let newEvent = BlockBase_fromJson json workspace
            (case event of Some ev \<Rightarrow> ev | None \<Rightarrow> BlockBase_new ctx workspace None);
          newEvent = newEvent\<lparr>oldParentId := get_string json ''oldParentId''\<rparr>;
          newEvent = newEvent\<lparr>oldInputName := get_string json ''oldInputName''\<rparr>;
          newEvent = (if truthy (get_string json ''oldCoordinate'')
                      then newEvent\<lparr>oldCoordinate :=
                             map_option parse_coordinate (get_string json ''oldCoordinate'')\<rparr>
                      else newEvent);
          newEvent = newEvent\<lparr>newParentId := get_string json ''newParentId''\<rparr>;
          newEvent = newEvent\<lparr>newInputName := get_string json ''newInputName''\<rparr>;
          newEvent = (if truthy (get_string json ''newCoordinate'')
                      then newEvent\<lparr>newCoordinate :=
                             map_option parse_coordinate (get_string json ''newCoordinate'')\<rparr>
                      else newEvent)
      in case json ''recordUndo'' of
           Some (JBoolean b) \<Rightarrow> newEvent\<lparr>recordUndo := b\<rparr>
         | _ \<Rightarrow> newEvent)"

definition isNull :: "BlockMove \<Rightarrow> bool" where
  "isNull this =
     (oldParentId this = newParentId this \<and> oldInputName this = newInputName this
      \<and> Coordinate_equals (oldCoordinate this) (newCoordinate this))"

text \<open>
  \<open>run\<close>, in three parts: the reconnection of the unplugged block (the \<open>else\<close> branch
  of the test of \<open>coordinate\<close>), the placing of the block once the block and the
  parent are found, and the lookups before it. The workspace is the one
  \<open>getEventWorkspace_\<close> gives.
\<close>

definition run_reconnect ::
  "Block \<Rightarrow> Block option \<Rightarrow> string option \<Rightarrow> Completion \<times> Block \<times> string list" where
  "run_reconnect block parentBlock inputName =
     (let blockConnection = outputConnection block;
          blockConnection =
            (if blockConnection = None
                \<or> (case previousConnection block of
                      None \<Rightarrow> False
                    | Some previous \<Rightarrow> isConnected block previous)
             then previousConnection block
             else blockConnection)
      in case blockConnection of
           None \<Rightarrow> (Thrown TypeError, block, [])
         | Some bc \<Rightarrow>
             (let connectionType = ctype bc;
                  parentConnection =
                    (case truthy_value inputName of
                       Some n \<Rightarrow>
                         (case parentBlock of
                            None \<Rightarrow> Inl TypeError
                          | Some pb \<Rightarrow>
                              (case getInput pb n of
                                 Some input \<Rightarrow> Inr (connection pb input)
                               | None \<Rightarrow> Inr None))
                     | None \<Rightarrow>
                         if connectionType = PREVIOUS_STATEMENT
                         then (case parentBlock of
                                 None \<Rightarrow> Inl TypeError
                               | Some pb \<Rightarrow> Inr (nextConnection pb))
                         else Inr None)
              in case parentConnection of
                   Inl err \<Rightarrow> (Thrown err, block, [])
                 | Inr (Some pc) \<Rightarrow> (Returned, connect block bc pc, [])
                 | Inr None \<Rightarrow>
                     (Returned, block,
                      [''Can't connect to non-existent input: '' @ js_text inputName])))"

definition run_place ::
  "Workspace \<Rightarrow> Block \<Rightarrow> Block option \<Rightarrow> string option \<Rightarrow> Coordinate option
     \<Rightarrow> Completion \<times> Workspace \<times> string list" where
  "run_place workspace block parentBlock inputName coordinate =
     (let block = (if getParent block \<noteq> None then unplug block else block) in
      case coordinate of
        Some c \<Rightarrow>
          (let xy = getRelativeToSurfaceXY block in
           (Returned,
            setBlock workspace
              (moveBy block (num_sub (x_coord c) (x_coord xy)) (num_sub (y_coord c) (y_coord xy))),
            []))
      | None \<Rightarrow>
          (case run_reconnect block parentBlock inputName of
             (completion, block, console) \<Rightarrow> (completion, setBlock workspace block, console)))"

definition run :: "bool \<Rightarrow> BlockMove \<Rightarrow> Workspace \<Rightarrow> Completion \<times> Workspace \<times> string list" where
  "run forward this workspace =
     (case truthy_value (blockId this) of
        None \<Rightarrow>
          (Thrown (Error ''The block ID is undefined. Either pass a block to the constructor, or call fromJson''),
           workspace, [])
      | Some bid \<Rightarrow>
          (case getBlockById workspace bid of
             None \<Rightarrow> (Returned, workspace, [''Can't move non-existent block: '' @ bid])
           | Some block \<Rightarrow>
               (let parentId = (if forward then newParentId this else oldParentId this);
                    inputName = (if forward then newInputName this else oldInputName this);
                    coordinate = (if forward then newCoordinate this else oldCoordinate this)
                in case truthy_value parentId of
                     Some pid \<Rightarrow>
                       (case getBlockById workspace pid of
                          None \<Rightarrow>
                            (Returned, workspace,
                             [''Can't connect to non-existent block: '' @ pid])
                        | Some parentBlock \<Rightarrow>
                            run_place workspace block (Some parentBlock) inputName coordinate)
                   | None \<Rightarrow> run_place workspace block None inputName coordinate)))"

section \<open>Example documents and events\<close>

text \<open>
  A workspace with a parent block \<open>p\<close> (a value input \<open>A\<close>, a statement input \<open>DO\<close>
  and a next connection), a free block \<open>b\<close> with an output connection at (3, 3), a
  free block \<open>s\<close> with a previous connection, a block \<open>c\<close> with both an output and a
  previous connection, and a shadow block \<open>h\<close> plugged into the input \<open>A\<close> of \<open>p\<close>.
\<close>

definition ex_parent :: Block where
  "ex_parent =
     \<lparr>block_id = ''p'', isShadow = False, hasOutput = False, hasPrevious = True,
      hasNext = True,
      inputList = [\<lparr>name = ''A'', input_type = Some INPUT_VALUE\<rparr>,
                   \<lparr>name = ''DO'', input_type = Some NEXT_STATEMENT\<rparr>],
      xy = Coordinate (Num 0) (Num 0), plugged = None\<rparr>"

definition ex_block :: Block where
  "ex_block =
     \<lparr>block_id = ''b'', isShadow = False, hasOutput = True, hasPrevious = False,
      hasNext = False, inputList = [], xy = Coordinate (Num 3) (Num 3), plugged = None\<rparr>"

definition ex_statement :: Block where
  "ex_statement =
     \<lparr>block_id = ''s'', isShadow = False, hasOutput = False, hasPrevious = True,
      hasNext = True, inputList = [], xy = Coordinate (Num 5) (Num 8), plugged = None\<rparr>"

definition ex_both :: Block where
  "ex_both =
     \<lparr>block_id = ''c'', isShadow = False, hasOutput = True, hasPrevious = True,
      hasNext = False, inputList = [], xy = Coordinate (Num 7) (Num 7), plugged = None\<rparr>"

definition ex_shadow :: Block where
  "ex_shadow =
     \<lparr>block_id = ''h'', isShadow = True, hasOutput = True, hasPrevious = False,
      hasNext = False, inputList = [], xy = Coordinate (Num 1) (Num 1),
      plugged = Some (\<lparr>sourceBlock = ''h'', port = OutputPort, ctype = OUTPUT_VALUE\<rparr>,
                      \<lparr>sourceBlock = ''p'', port = InputPort ''A'', ctype = INPUT_VALUE\<rparr>)\<rparr>"

definition ex_workspace :: Workspace where
  "ex_workspace =
     \<lparr>workspace_id = ''w'',
      blocks = [ex_parent, ex_block, ex_statement, ex_both, ex_shadow]\<rparr>"

definition ex_context :: EventContext where
  "ex_context = \<lparr>getGroup = [], getRecordUndo = True\<rparr>"

text \<open>An event on block \<open>id\<close> of the example workspace, with the given old and new halves.\<close>

definition ex_move ::
  "string \<Rightarrow> string option \<times> string option \<times> Coordinate option
     \<Rightarrow> string option \<times> string option \<times> Coordinate option \<Rightarrow> BlockMove" where
  "ex_move i old new =
     \<lparr>etype = BLOCK_MOVE, workspaceId = Some ''w'', group = [], recordUndo = True,
      blockId = Some i,
      oldParentId = fst old, oldInputName = fst (snd old), oldCoordinate = snd (snd old),
      newParentId = fst new, newInputName = fst (snd new), newCoordinate = snd (snd new)\<rparr>"

section \<open>Numbers and their text\<close>

lemma digit_val_digit_char: "d < 10 \<Longrightarrow> digit_val (digit_char d) = Some d"
proof -
  assume "d < 10"
  then have "d \<in> {0, 1, 2, 3, 4, 5, 6, 7, 8, 9}" by auto
  then show ?thesis by (auto simp add: digit_val_def digit_char_def)
qed

lemma parse_digits_append:
  "parse_digits acc (xs @ ys)
   = (case parse_digits acc xs of None \<Rightarrow> None | Some a \<Rightarrow> parse_digits a ys)"
  by (induction xs arbitrary: acc) (auto split: option.splits)

lemma show_nat_unfold:
  "\<not> n < 10 \<Longrightarrow> show_nat n = show_nat (n div 10) @ [digit_char (n mod 10)]"
  by (subst show_nat.simps) simp

lemma show_nat_small: "n < 10 \<Longrightarrow> show_nat n = [digit_char n]"
  by (subst show_nat.simps) simp

lemma parse_show_nat: "parse_digits 0 (show_nat n) = Some n"
proof (induction n rule: show_nat.induct)
  case (1 n)
  show ?case
  proof (cases "n < 10")
    case True
    then show ?thesis by (simp add: show_nat_small digit_val_digit_char del: show_nat.simps)
  next
    case False
    with 1 have "parse_digits 0 (show_nat (n div 10)) = Some (n div 10)" by simp
    with False show ?thesis
      by (simp add: show_nat_unfold parse_digits_append digit_val_digit_char
          del: show_nat.simps)
  qed
qed

text \<open>The digits of a number hold no comma, no white space and no sign.\<close>

lemma digit_char_plain:
  "d < 10 \<Longrightarrow> digit_char d \<noteq> CHR '','' \<and> \<not> is_space (digit_char d)
     \<and> digit_char d \<noteq> CHR ''-'' \<and> digit_char d \<noteq> CHR ''+''"
proof -
  assume "d < 10"
  then have "d \<in> {0, 1, 2, 3, 4, 5, 6, 7, 8, 9}" by auto
  then show ?thesis by (auto simp add: is_space_def digit_char_def)
qed

lemma show_nat_plain:
  "show_nat n \<noteq> [] \<and> (\<forall>c \<in> set (show_nat n). c \<noteq> CHR '','' \<and> \<not> is_space c)
     \<and> hd (show_nat n) \<noteq> CHR ''-'' \<and> hd (show_nat n) \<noteq> CHR ''+''"
proof (induction n rule: show_nat.induct)
  case (1 n)
  show ?case
  proof (cases "n < 10")
    case True
    then show ?thesis by (simp add: show_nat_small digit_char_plain del: show_nat.simps)
  next
    case False
    with 1 have "show_nat (n div 10) \<noteq> []
        \<and> (\<forall>c \<in> set (show_nat (n div 10)). c \<noteq> CHR '','' \<and> \<not> is_space c)
        \<and> hd (show_nat (n div 10)) \<noteq> CHR ''-'' \<and> hd (show_nat (n div 10)) \<noteq> CHR ''+''"
      by simp
    with False show ?thesis
      by (simp add: show_nat_unfold digit_char_plain del: show_nat.simps)
  qed
qed

lemma show_int_plain:
  "show_int i \<noteq> [] \<and> (\<forall>c \<in> set (show_int i). c \<noteq> CHR '','' \<and> \<not> is_space c)"
  using show_nat_plain [of "nat i"] show_nat_plain [of "nat (- i)"]
  by (simp add: show_int_def is_space_def del: show_nat.simps)

lemma split_on_plain:
  "\<forall>c \<in> set xs. c \<noteq> d \<Longrightarrow> split_on d acc (xs @ d # ys) = (rev acc @ xs) # split_on d [] ys"
  by (induction xs arbitrary: acc) simp_all

lemma split_on_end: "\<forall>c \<in> set xs. c \<noteq> d \<Longrightarrow> split_on d acc xs = [rev acc @ xs]"
  by (induction xs arbitrary: acc) simp_all

lemma dropWhile_plain: "xs \<noteq> [] \<Longrightarrow> \<not> P (hd xs) \<Longrightarrow> dropWhile P xs = xs"
  by (cases xs) simp_all

lemma trim_plain:
  assumes "xs \<noteq> []" and "\<forall>c \<in> set xs. \<not> is_space c"
  shows "trim xs = xs" and "trim (CHR '' '' # xs) = xs"
proof -
  have h: "\<not> is_space (hd xs)" using assms by (cases xs) simp_all
  have l: "\<not> is_space (hd (rev xs))" using assms by (simp add: hd_rev)
  from assms h l show "trim xs = xs"
    by (simp add: trim_def dropWhile_plain)
  from assms h l show "trim (CHR '' '' # xs) = xs"
    by (simp add: trim_def dropWhile_plain is_space_def)
qed

lemma Number_show_nat: "parse_unsigned (show_nat n) = Num (of_nat n)"
  using show_nat_plain [of n] by (simp add: parse_unsigned_def parse_show_nat del: show_nat.simps)

lemma Number_body_show_int:
  "(case show_int i of [] \<Rightarrow> Num 0
    | c # cs \<Rightarrow> if c = CHR ''-'' then num_sub (Num 0) (parse_unsigned cs)
               else if c = CHR ''+'' then parse_unsigned cs else parse_unsigned (c # cs))
   = Num (of_int i)"
proof (cases "i < 0")
  case True
  then show ?thesis by (simp add: show_int_def Number_show_nat del: show_nat.simps)
next
  case False
  obtain c cs where cs: "show_nat (nat i) = c # cs"
    using show_nat_plain [of "nat i"] by (cases "show_nat (nat i)") auto
  with show_nat_plain [of "nat i"] have "c \<noteq> CHR ''-''" "c \<noteq> CHR ''+''" by auto
  moreover have "parse_unsigned (c # cs) = Num (of_nat (nat i))"
    using Number_show_nat [of "nat i"] cs by simp
  ultimately show ?thesis using False cs by (simp add: show_int_def del: show_nat.simps)
qed

lemma Number_show_int:
  "Number_str (Some (show_int i)) = Num (of_int i)"
  "Number_str (Some (CHR '' '' # show_int i)) = Num (of_int i)"
  using show_int_plain [of i] Number_body_show_int [of i]
  by (simp_all add: Number_str_def trim_plain)

lemma parse_coordinate_text:
  "parse_coordinate (show_int i @ CHR '','' # CHR '' '' # show_int j)
   = Coordinate (Num (of_int i)) (Num (of_int j))"
proof -
  have "split_str (show_int i @ CHR '','' # CHR '' '' # show_int j) CHR '',''
        = [show_int i, CHR '' '' # show_int j]"
    using show_int_plain [of i] show_int_plain [of j]
    by (simp add: split_str_def split_on_plain split_on_end is_space_def)
  then show ?thesis by (simp add: parse_coordinate_def Number_show_int)
qed

lemma Math_round_int: "Math_round (of_int i) = i"
  by (simp add: Math_round_def) linarith

text \<open>Rules that evaluate \<open>Math_round\<close> and \<open>show_int\<close> on numerals.\<close>

lemma floor_rat_numeral: "\<lfloor>numeral a / numeral b :: rat\<rfloor> = numeral a div numeral b"
  using floor_divide_of_int_eq [of "numeral a" "numeral b", where ?'a = rat] by simp

lemma floor_rat_minus_numeral:
  "\<lfloor>- (numeral a / numeral b) :: rat\<rfloor> = - numeral a div numeral b"
  using floor_divide_of_int_eq [of "- numeral a" "numeral b", where ?'a = rat] by simp

lemmas round_eval =
  Math_round_def floor_rat_numeral floor_rat_minus_numeral show_int_def digit_char_def

lemma coordinate_text_round:
  "coordinate_text (Coordinate (Num a) (Num b))
   = show_int (Math_round a) @ '', '' @ show_int (Math_round b)"
  by (simp add: coordinate_text_def)

lemma coordinate_text_truthy: "coordinate_text (Coordinate (Num a) (Num b)) \<noteq> []"
  using show_int_plain [of "Math_round a"] by (simp add: coordinate_text_def)

section \<open>Serialization\<close>

lemma toJson_oldCoordinate:
  "toJson e ''oldCoordinate'' = map_option (\<lambda>c. JString (coordinate_text c)) (oldCoordinate e)"
  by (simp add: toJson_def BlockBase_toJson_def Let_def split: option.splits)

lemma toJson_newCoordinate:
  "toJson e ''newCoordinate'' = map_option (\<lambda>c. JString (coordinate_text c)) (newCoordinate e)"
  by (simp add: toJson_def BlockBase_toJson_def Let_def split: option.splits)

lemma toJson_strings:
  "get_string (toJson e) ''blockId'' = blockId e"
  "get_string (toJson e) ''oldParentId'' = oldParentId e"
  "get_string (toJson e) ''oldInputName'' = oldInputName e"
  "get_string (toJson e) ''newParentId'' = newParentId e"
  "get_string (toJson e) ''newInputName'' = newInputName e"
proof -
  show "get_string (toJson e) ''blockId'' = blockId e"
    by (cases "blockId e")
      (simp_all add: toJson_def BlockBase_toJson_def Let_def split: option.splits)
  show "get_string (toJson e) ''oldParentId'' = oldParentId e"
    by (cases "oldParentId e")
      (simp_all add: toJson_def BlockBase_toJson_def Let_def split: option.splits)
  show "get_string (toJson e) ''oldInputName'' = oldInputName e"
    by (cases "oldInputName e")
      (simp_all add: toJson_def BlockBase_toJson_def Let_def split: option.splits)
  show "get_string (toJson e) ''newParentId'' = newParentId e"
    by (cases "newParentId e")
      (simp_all add: toJson_def BlockBase_toJson_def Let_def split: option.splits)
  show "get_string (toJson e) ''newInputName'' = newInputName e"
    by (cases "newInputName e")
      (simp_all add: toJson_def BlockBase_toJson_def Let_def split: option.splits)
qed

lemma toJson_coordinate_strings:
  "get_string (toJson e) ''oldCoordinate'' = map_option coordinate_text (oldCoordinate e)"
  "get_string (toJson e) ''newCoordinate'' = map_option coordinate_text (newCoordinate e)"
proof -
  show "get_string (toJson e) ''oldCoordinate'' = map_option coordinate_text (oldCoordinate e)"
    by (cases "oldCoordinate e") (simp_all add: toJson_oldCoordinate)
  show "get_string (toJson e) ''newCoordinate'' = map_option coordinate_text (newCoordinate e)"
    by (cases "newCoordinate e") (simp_all add: toJson_newCoordinate)
qed

lemma fromJson_fields:
  "blockId (fromJson ctx j ws ev) = get_string j ''blockId''"
  "oldParentId (fromJson ctx j ws ev) = get_string j ''oldParentId''"
  "oldInputName (fromJson ctx j ws ev) = get_string j ''oldInputName''"
  "newParentId (fromJson ctx j ws ev) = get_string j ''newParentId''"
  "newInputName (fromJson ctx j ws ev) = get_string j ''newInputName''"
  "oldCoordinate (fromJson ctx j ws ev)
     = (if truthy (get_string j ''oldCoordinate'')
        then map_option parse_coordinate (get_string j ''oldCoordinate'')
        else oldCoordinate (case ev of Some v \<Rightarrow> v | None \<Rightarrow> BlockBase_new ctx ws None))"
  "newCoordinate (fromJson ctx j ws ev)
     = (if truthy (get_string j ''newCoordinate'')
        then map_option parse_coordinate (get_string j ''newCoordinate'')
        else newCoordinate (case ev of Some v \<Rightarrow> v | None \<Rightarrow> BlockBase_new ctx ws None))"
  unfolding fromJson_def Let_def BlockBase_fromJson_def
  by (simp_all del: get_string.simps split: option.splits jsvalue.splits)

lemma run_fields:
  assumes "blockId e1 = blockId e2"
    and "oldParentId e1 = oldParentId e2" and "oldInputName e1 = oldInputName e2"
    and "oldCoordinate e1 = oldCoordinate e2"
    and "newParentId e1 = newParentId e2" and "newInputName e1 = newInputName e2"
    and "newCoordinate e1 = newCoordinate e2"
  shows "run forward e1 ws = run forward e2 ws"
  unfolding run_def by (simp only: assms)

lemma integral_roundtrip:
  assumes "\<forall>c. v = Some c \<longrightarrow> (\<exists>i j. c = Coordinate (Num (of_int i)) (Num (of_int j)))"
  shows "truthy (map_option coordinate_text v) = (v \<noteq> None)"
    and "map_option parse_coordinate (map_option coordinate_text v) = v"
proof -
  have "truthy (map_option coordinate_text v) = (v \<noteq> None)
        \<and> map_option parse_coordinate (map_option coordinate_text v) = v"
  proof (cases v)
    case None
    then show ?thesis by simp
  next
    case (Some c)
    with assms obtain i j where c: "c = Coordinate (Num (of_int i)) (Num (of_int j))" by auto
    show ?thesis
      using coordinate_text_truthy [of "of_int i" "of_int j"]
      by (simp add: Some c coordinate_text_round Math_round_int parse_coordinate_text)
  qed
  then show "truthy (map_option coordinate_text v) = (v \<noteq> None)"
    and "map_option parse_coordinate (map_option coordinate_text v) = v" by simp_all
qed

lemma num_eq_iff: "a \<noteq> NaN \<Longrightarrow> b \<noteq> NaN \<Longrightarrow> num_eq a b = (a = b)"
  by (cases a; cases b) simp_all

lemma Coordinate_equals_iff:
  assumes "\<forall>c. a = Some c \<longrightarrow> x_coord c \<noteq> NaN \<and> y_coord c \<noteq> NaN"
    and "\<forall>c. b = Some c \<longrightarrow> x_coord c \<noteq> NaN \<and> y_coord c \<noteq> NaN"
  shows "Coordinate_equals a b = (a = b)"
proof (cases a)
  case None
  then show ?thesis by (cases b) simp_all
next
  case (Some c)
  show ?thesis
  proof (cases b)
    case None
    with Some show ?thesis by simp
  next
    case (Some d)
    with \<open>a = Some c\<close> assms show ?thesis
      by (cases c; cases d) (simp add: num_eq_iff)
  qed
qed

lemmas ex_defs =
  ex_parent_def ex_block_def ex_statement_def ex_both_def ex_shadow_def ex_workspace_def
  ex_context_def ex_move_def

section \<open>The document and the current location\<close>

lemma getBlockById_id: "getBlockById ws i = Some b \<Longrightarrow> block_id b = i"
  by (auto simp add: getBlockById_def find_Some_iff)

lemma find_replace:
  "find (\<lambda>c. block_id c = i) (map (\<lambda>c. if block_id c = block_id b then b else c) xs)
   = (if i = block_id b then map_option (\<lambda>c. b) (find (\<lambda>c. block_id c = i) xs)
      else find (\<lambda>c. block_id c = i) xs)"
  by (induction xs) auto

lemma getBlockById_setBlock:
  "getBlockById (setBlock ws b) i
   = (if i = block_id b then map_option (\<lambda>c. b) (getBlockById ws i) else getBlockById ws i)"
  by (simp add: getBlockById_def setBlock_def find_replace)

lemma getInput_name: "getInput pb n = Some input \<Longrightarrow> name input = n"
  by (auto simp add: getInput_def find_Some_iff)

lemma connection_port:
  "connection pb i = Some t \<Longrightarrow> port t = InputPort (name i)"
  by (auto simp add: connection_def)

lemma nextConnection_port: "nextConnection pb = Some t \<Longrightarrow> port t = NextPort"
  by (auto simp add: nextConnection_def split: if_splits)

lemma getInputWithBlock_cong:
  "getBlockById ws2 p = getBlockById ws p \<Longrightarrow> plugged b2 = plugged b
   \<Longrightarrow> getInputWithBlock ws2 p b2 = getInputWithBlock ws p b"
  by (simp add: getInputWithBlock_def split: option.splits)

lemma getInputWithBlock_Some:
  assumes "getBlockById ws p = Some pb" and "getInputWithBlock ws p b = Some i"
  shows "connection pb i = map_option snd (plugged b) \<and> connection pb i \<noteq> None"
  using assms by (auto simp add: getInputWithBlock_def find_Some_iff)

lemma getInputWithBlock_None:
  assumes "getBlockById ws p = Some pb" and "getInputWithBlock ws p b = None"
    and "getInput pb n = Some input"
  shows "connection pb input \<noteq> map_option snd (plugged b) \<or> connection pb input = None"
proof -
  from assms(3) have "input \<in> set (inputList pb)"
    by (auto simp add: getInput_def find_Some_iff)
  with assms(1,2) show ?thesis by (auto simp add: getInputWithBlock_def find_None_iff)
qed

lemma currentLocation_found:
  assumes "blockId e = Some bid" and "bid \<noteq> []" and "getBlockById ws bid = Some block"
  shows "currentLocation e ws
     = Inr (case getParent block of
              Some parent \<Rightarrow>
                \<lparr>location_parentId = Some parent,
                 location_inputName = map_option name (getInputWithBlock ws parent block),
                 location_coordinate = None\<rparr>
            | None \<Rightarrow>
                \<lparr>location_parentId = None, location_inputName = None,
                 location_coordinate = Some (getRelativeToSurfaceXY block)\<rparr>)"
  using assms by (simp add: currentLocation_def split: option.splits)

lemma BlockMove_new_blockId:
  "blockId (if isShadow (b :: Block) then (BlockBase_new ctx ws (Some b))\<lparr>recordUndo := False\<rparr>
            else BlockBase_new ctx ws (Some b)) = Some (block_id b)"
  by (simp add: BlockBase_new_def)

lemma old_half:
  assumes "currentLocation e ws
         = Inr \<lparr>location_parentId = oldParentId e, location_inputName = oldInputName e,
                location_coordinate = oldCoordinate e\<rparr>"
    and "currentLocation e ws = Inr loc"
  shows "oldParentId e = location_parentId loc" and "oldInputName e = location_inputName loc"
    and "oldCoordinate e = location_coordinate loc"
proof -
  have "Inr \<lparr>location_parentId = oldParentId e, location_inputName = oldInputName e,
                location_coordinate = oldCoordinate e\<rparr> = (Inr loc :: error + BlockLocation)"
    using assms(1) [symmetric] assms(2) by (rule trans)
  then have r: "\<lparr>location_parentId = oldParentId e, location_inputName = oldInputName e,
                location_coordinate = oldCoordinate e\<rparr> = loc"
    by (rule Inr_inject)
  show "oldParentId e = location_parentId loc" using arg_cong [OF r, of location_parentId] by simp
  show "oldInputName e = location_inputName loc" using arg_cong [OF r, of location_inputName] by simp
  show "oldCoordinate e = location_coordinate loc" using arg_cong [OF r, of location_coordinate] by simp
qed

section \<open>The steps of \<open>run\<close>\<close>

lemma unplug_if: "(if getParent b \<noteq> None then unplug b else b) = b\<lparr>plugged := None\<rparr>"
  by (cases "plugged b") (simp_all add: getParent_def unplug_def)

lemma run_place_reconnect:
  "run_place ws block parentBlock iname None
   = (case run_reconnect (block\<lparr>plugged := None\<rparr>) parentBlock iname of
        (c, b, l) \<Rightarrow> (c, setBlock ws b, l))"
  unfolding run_place_def Let_def unplug_if by simp

lemma run_place_move:
  "run_place ws block parentBlock iname (Some c)
   = (Returned,
      setBlock ws (block\<lparr>plugged := None,
         xy := Coordinate (num_add (x_coord (xy block)) (num_sub (x_coord c) (x_coord (xy block))))
                 (num_add (y_coord (xy block)) (num_sub (y_coord c) (y_coord (xy block))))\<rparr>), [])"
  unfolding run_place_def Let_def unplug_if by (simp add: moveBy_def getRelativeToSurfaceXY_def)

text \<open>The block-side connection \<open>run\<close> picks for a block that is not plugged in.\<close>

lemma run_reconnect_free:
  assumes "plugged b = None"
  shows "run_reconnect b parentBlock iname =
     (case (if hasOutput b then outputConnection b else previousConnection b) of
        None \<Rightarrow> (Thrown TypeError, b, [])
      | Some bc \<Rightarrow>
          (case (case truthy_value iname of
                   Some n \<Rightarrow>
                     (case parentBlock of
                        None \<Rightarrow> Inl TypeError
                      | Some pb \<Rightarrow>
                          (case getInput pb n of
                             Some input \<Rightarrow> Inr (connection pb input)
                           | None \<Rightarrow> Inr None))
                 | None \<Rightarrow>
                     if ctype bc = PREVIOUS_STATEMENT
                     then (case parentBlock of
                             None \<Rightarrow> Inl TypeError
                           | Some pb \<Rightarrow> Inr (nextConnection pb))
                     else Inr None) of
             Inl err \<Rightarrow> (Thrown err, b, [])
           | Inr (Some pc) \<Rightarrow> (Returned, b\<lparr>plugged := Some (bc, pc)\<rparr>, [])
           | Inr None \<Rightarrow>
               (Returned, b, [''Can't connect to non-existent input: '' @ js_text iname])))"
  using assms
  by (auto simp add: run_reconnect_def Let_def isConnected_def outputConnection_def
      previousConnection_def connect_def split: option.splits sum.splits)

lemma run_reconnect_id:
  "run_reconnect b parentBlock iname = (c, b', l) \<Longrightarrow> block_id b' = block_id b"
  by (auto simp add: run_reconnect_def Let_def connect_def split: option.splits sum.splits if_splits)

lemma reconnect_named:
  assumes "plugged b = None" and "truthy_value iname = Some n"
    and "getInput pb n = Some input" and "connection pb input = Some pc"
    and "(if hasOutput b then outputConnection b else previousConnection b) = Some bc"
  shows "run_reconnect b (Some pb) iname = (Returned, b\<lparr>plugged := Some (bc, pc)\<rparr>, [])"
  unfolding run_reconnect_free [OF assms(1)] using assms(2-5) by simp

lemma reconnect_next:
  assumes "plugged b = None" and "truthy_value iname = None"
    and "(if hasOutput b then outputConnection b else previousConnection b) = Some bc"
    and "ctype bc = PREVIOUS_STATEMENT" and "nextConnection pb = Some pc"
  shows "run_reconnect b (Some pb) iname = (Returned, b\<lparr>plugged := Some (bc, pc)\<rparr>, [])"
  unfolding run_reconnect_free [OF assms(1)] using assms(2-5) by simp

lemma reconnect_plugged:
  assumes "plugged b = None" and "run_reconnect b (Some pb) iname = (c, b', l)"
    and "plugged b' = Some (own, target)"
  shows "(if hasOutput b then outputConnection b else previousConnection b) = Some own
     \<and> (case truthy_value iname of
          Some n \<Rightarrow> (\<exists>input. getInput pb n = Some input \<and> connection pb input = Some target)
        | None \<Rightarrow> ctype own = PREVIOUS_STATEMENT \<and> nextConnection pb = Some target)"
proof (cases "if hasOutput b then outputConnection b else previousConnection b")
  case None
  with assms show ?thesis unfolding run_reconnect_free [OF assms(1)] by auto
next
  case bc: (Some bc)
  show ?thesis
  proof (cases "truthy_value iname")
    case None
    with assms bc show ?thesis unfolding run_reconnect_free [OF assms(1)]
      by (cases "nextConnection pb") (auto split: if_splits)
  next
    case (Some n)
    show ?thesis
    proof (cases "getInput pb n")
      case None
      with assms bc Some show ?thesis unfolding run_reconnect_free [OF assms(1)] by auto
    next
      case input: (Some input)
      with assms bc Some show ?thesis unfolding run_reconnect_free [OF assms(1)]
        by (cases "connection pb input") auto
    qed
  qed
qed

lemma chosen_connection_shape:
  "(if hasOutput (b\<lparr>plugged := P, xy := X\<rparr>) then outputConnection (b\<lparr>plugged := P, xy := X\<rparr>)
    else previousConnection (b\<lparr>plugged := P, xy := X\<rparr>))
   = (if hasOutput b then outputConnection b else previousConnection b)"
  by (simp add: outputConnection_def previousConnection_def)

lemma run_found:
  assumes "blockId e = Some bid" and "bid \<noteq> []" and "getBlockById ws bid = Some block"
    and "\<forall>pid. truthy_value (if forward then newParentId e else oldParentId e) = Some pid
           \<longrightarrow> getBlockById ws pid \<noteq> None"
  shows "run forward e ws
     = run_place ws block
         (case truthy_value (if forward then newParentId e else oldParentId e) of
            None \<Rightarrow> None | Some pid \<Rightarrow> getBlockById ws pid)
         (if forward then newInputName e else oldInputName e)
         (if forward then newCoordinate e else oldCoordinate e)"
  using assms by (auto simp add: run_def Let_def split: option.splits)

lemma run_False_found:
  assumes "blockId e = Some bid" and "bid \<noteq> []" and "getBlockById ws bid = Some b"
    and "truthy_value (oldParentId e) = None \<or>
         (\<exists>pid. truthy_value (oldParentId e) = Some pid \<and> getBlockById ws pid \<noteq> None)"
  shows "run False e ws
     = run_place ws b
         (case truthy_value (oldParentId e) of None \<Rightarrow> None | Some pid \<Rightarrow> getBlockById ws pid)
         (oldInputName e) (oldCoordinate e)"
proof -
  have "\<forall>pid. truthy_value (if False then newParentId e else oldParentId e) = Some pid
           \<longrightarrow> getBlockById ws pid \<noteq> None"
    using assms(4) by auto
  from run_found [OF assms(1-3) this] show ?thesis by simp
qed

lemma run_reconnect_shape:
  "run_reconnect b parentBlock iname = (c, b', l) \<Longrightarrow> \<exists>P. b' = b\<lparr>plugged := P\<rparr>"
proof -
  assume r: "run_reconnect b parentBlock iname = (c, b', l)"
  have same: "b = b\<lparr>plugged := plugged b\<rparr>" by simp
  from r have "b' = b \<or> (\<exists>bc pc. b' = connect b bc pc)"
    by (auto simp add: run_reconnect_def Let_def split: option.splits sum.splits if_splits)
  then show ?thesis
  proof
    assume "b' = b"
    with same show ?thesis by metis
  next
    assume "\<exists>bc pc. b' = connect b bc pc"
    then show ?thesis by (auto simp add: connect_def)
  qed
qed

lemma run_place_shape:
  assumes "run_place ws block parentBlock iname coord = (c, ws', l)"
  shows "\<exists>P X. ws' = setBlock ws (block\<lparr>plugged := P, xy := X\<rparr>)
           \<and> (coord = None \<longrightarrow> X = xy block)
           \<and> (\<forall>cc. coord = Some cc \<longrightarrow>
                 X = Coordinate (num_add (x_coord (xy block)) (num_sub (x_coord cc) (x_coord (xy block))))
                       (num_add (y_coord (xy block)) (num_sub (y_coord cc) (y_coord (xy block)))))"
proof (cases coord)
  case None
  obtain c0 b l0 where r: "run_reconnect (block\<lparr>plugged := None\<rparr>) parentBlock iname = (c0, b, l0)"
    by (cases "run_reconnect (block\<lparr>plugged := None\<rparr>) parentBlock iname") auto
  from run_reconnect_shape [OF r] obtain P where "b = block\<lparr>plugged := P\<rparr>" by auto
  then have b: "b = block\<lparr>plugged := P, xy := xy block\<rparr>" by simp
  from assms None r have "ws' = setBlock ws b" by (simp add: run_place_reconnect)
  with b None show ?thesis by blast
next
  case (Some cc)
  with assms show ?thesis by (auto simp add: run_place_move)
qed

lemma run_shape:
  assumes "blockId e = Some bid" and "bid \<noteq> []" and "getBlockById ws bid = Some block"
    and "run forward e ws = (c, ws', l)"
  shows "\<exists>P X. getBlockById ws' bid = Some (block\<lparr>plugged := P, xy := X\<rparr>)
     \<and> (\<forall>i. i \<noteq> bid \<longrightarrow> getBlockById ws' i = getBlockById ws i)
     \<and> (X = xy block
        \<or> (\<exists>cc. (if forward then newCoordinate e else oldCoordinate e) = Some cc
             \<and> X = Coordinate (num_add (x_coord (xy block)) (num_sub (x_coord cc) (x_coord (xy block))))
                     (num_add (y_coord (xy block)) (num_sub (y_coord cc) (y_coord (xy block))))))"
proof (cases "\<forall>pid. truthy_value (if forward then newParentId e else oldParentId e) = Some pid
           \<longrightarrow> getBlockById ws pid \<noteq> None")
  case True
  define pb where "pb = (case truthy_value (if forward then newParentId e else oldParentId e) of
            None \<Rightarrow> None | Some pid \<Rightarrow> getBlockById ws pid)"
  define nm where "nm = (if forward then newInputName e else oldInputName e)"
  define co where "co = (if forward then newCoordinate e else oldCoordinate e)"
  have id: "block_id block = bid" using assms(3) by (rule getBlockById_id)
  have "run_place ws block pb nm co = (c, ws', l)"
    unfolding pb_def nm_def co_def using run_found [OF assms(1-3) True] assms(4) by simp
  from run_place_shape [OF this] obtain P X where
    px: "ws' = setBlock ws (block\<lparr>plugged := P, xy := X\<rparr>)"
      "co = None \<longrightarrow> X = xy block"
      "\<forall>cc. co = Some cc \<longrightarrow>
          X = Coordinate (num_add (x_coord (xy block)) (num_sub (x_coord cc) (x_coord (xy block))))
                (num_add (y_coord (xy block)) (num_sub (y_coord cc) (y_coord (xy block))))"
    by blast
  from px(1) assms(3) id
  have g: "getBlockById ws' bid = Some (block\<lparr>plugged := P, xy := X\<rparr>)"
    and o: "\<forall>i. i \<noteq> bid \<longrightarrow> getBlockById ws' i = getBlockById ws i"
    by (simp_all add: getBlockById_setBlock)
  have x: "X = xy block
        \<or> (\<exists>cc. co = Some cc
             \<and> X = Coordinate (num_add (x_coord (xy block)) (num_sub (x_coord cc) (x_coord (xy block))))
                     (num_add (y_coord (xy block)) (num_sub (y_coord cc) (y_coord (xy block)))))"
  proof (cases co)
    case None
    with px(2) show ?thesis by simp
  next
    case (Some cc)
    with px(3) show ?thesis by simp
  qed
  from g o x show ?thesis unfolding co_def by blast
next
  case False
  then obtain pid where
    p: "truthy_value (if forward then newParentId e else oldParentId e) = Some pid"
      "getBlockById ws pid = None" by auto
  have "run forward e ws = (Returned, ws, [''Can't connect to non-existent block: '' @ pid])"
    using assms(1-3) p by (simp add: run_def Let_def)
  with assms(4) have w: "ws' = ws" by simp
  show ?thesis
    apply (rule exI [of _ "plugged block"])
    apply (rule exI [of _ "xy block"])
    using assms(3) w apply simp
    done
qed

lemma num_same: "num_add a (num_sub a a) = a"
  by (cases a) simp_all

lemma num_there_and_back:
  "c \<noteq> NaN \<Longrightarrow> num_add (num_add a (num_sub c a)) (num_sub a (num_add a (num_sub c a))) = a"
  by (cases a; cases c) simp_all

text \<open>
  On integers of magnitude at most \<open>2^52\<close> the move there and back computes integers
  of magnitude at most \<open>2^53\<close> only: the difference, the new position, the difference
  back and the old position. Doubles hold and compute these exactly.
\<close>

lemma whole_there_and_back:
  fixes i k :: int
  assumes "\<bar>i\<bar> \<le> 2 ^ 52" and "\<bar>k\<bar> \<le> 2 ^ 52"
  shows "num_sub (Num (of_int k)) (Num (of_int i)) = Num (of_int (k - i))"
    and "num_add (Num (of_int i)) (Num (of_int (k - i))) = Num (of_int k)"
    and "num_sub (Num (of_int i)) (Num (of_int k)) = Num (of_int (i - k))"
    and "num_add (Num (of_int k)) (Num (of_int (i - k))) = Num (of_int i)"
    and "\<bar>k - i\<bar> \<le> 2 ^ 53" and "\<bar>i - k\<bar> \<le> 2 ^ 53"
  using assms by simp_all

section \<open>The claims\<close>

text \<open>
  C1, as the code has it. Let the old half of the event be the current location of its
  block, in a document where a plugged-in block has a parent other than itself that
  exists under a non-empty id and has the connection the block is plugged into (an input
  found under its non-empty name, or the next connection, which holds a previous
  connection), and where the block is plugged in by the connection \<open>run\<close> picks (the
  output connection if the block has one, else the previous connection). When the
  block is free, let its coordinate and the new coordinate, if there is one, have
  integer components of magnitude at most \<open>2^52\<close>: \<open>run\<close> moves the block by the
  difference of two coordinates, and on such components every difference and sum it
  computes is an integer of magnitude at most \<open>2^53\<close>, which doubles compute exactly
  (other components are rounded, and the block can come back beside its place). Then,
  if \<open>run(true)\<close> returns, \<open>run(false)\<close> after it returns without a warning, and the
  location of the block (what \<open>currentLocation_\<close> reports, the connection it is plugged
  into, and its coordinate when it is free) is what it was before \<open>run(true)\<close>.
\<close>

theorem run_round_trip:
  assumes "blockId e = Some bid" and "bid \<noteq> []" and "getBlockById ws bid = Some block"
    and "currentLocation e ws
         = Inr \<lparr>location_parentId = oldParentId e, location_inputName = oldInputName e,
                location_coordinate = oldCoordinate e\<rparr>"
    and "\<forall>own target. plugged block = Some (own, target) \<longrightarrow>
           sourceBlock target \<noteq> [] \<and> sourceBlock target \<noteq> bid
           \<and> (if hasOutput block then outputConnection block else previousConnection block)
               = Some own
           \<and> (\<exists>pb. getBlockById ws (sourceBlock target) = Some pb
                \<and> ((\<exists>n input. n \<noteq> [] \<and> getInput pb n = Some input
                        \<and> connection pb input = Some target)
                    \<or> (nextConnection pb = Some target \<and> ctype own = PREVIOUS_STATEMENT)))"
    and "plugged block = None \<longrightarrow>
           (\<exists>i j :: int. xy block = Coordinate (Num (of_int i)) (Num (of_int j))
              \<and> \<bar>i\<bar> \<le> 2 ^ 52 \<and> \<bar>j\<bar> \<le> 2 ^ 52)
           \<and> (\<forall>c. newCoordinate e = Some c \<longrightarrow>
                (\<exists>k l :: int. c = Coordinate (Num (of_int k)) (Num (of_int l))
                   \<and> \<bar>k\<bar> \<le> 2 ^ 52 \<and> \<bar>l\<bar> \<le> 2 ^ 52))"
    and "run True e ws = (Returned, ws1, l1)"
  shows "\<exists>ws2 block2. run False e ws1 = (Returned, ws2, [])
           \<and> currentLocation e ws2 = currentLocation e ws
           \<and> getBlockById ws2 bid = Some block2
           \<and> plugged block2 = plugged block
           \<and> (plugged block = None \<longrightarrow> xy block2 = xy block)"
proof -
  have id: "block_id block = bid" using assms(3) by (rule getBlockById_id)
  from run_shape [OF assms(1-3) assms(7)] obtain P X where
    b1: "getBlockById ws1 bid = Some (block\<lparr>plugged := P, xy := X\<rparr>)"
    and others: "\<forall>i. i \<noteq> bid \<longrightarrow> getBlockById ws1 i = getBlockById ws i"
    and X: "X = xy block
        \<or> (\<exists>cc. newCoordinate e = Some cc
             \<and> X = Coordinate (num_add (x_coord (xy block)) (num_sub (x_coord cc) (x_coord (xy block))))
                     (num_add (y_coord (xy block)) (num_sub (y_coord cc) (y_coord (xy block)))))"
    by auto
  define b1 where "b1 = block\<lparr>plugged := P, xy := X\<rparr>"
  have b1_id: "block_id b1 = bid" by (simp add: b1_def id)
  have found1: "getBlockById ws1 bid = Some b1" using b1 by (simp add: b1_def)
  note loc = currentLocation_found [OF assms(1-3)]
  show ?thesis
  proof (cases "plugged block")
    case None
    then have par: "getParent block = None" by (simp add: getParent_def)
    have old: "oldParentId e = None" "oldInputName e = None" "oldCoordinate e = Some (xy block)"
      using old_half [OF assms(4) loc] par by (simp_all add: getRelativeToSurfaceXY_def)
    have restored: "num_add (x_coord X) (num_sub (x_coord (xy block)) (x_coord X)) = x_coord (xy block)
        \<and> num_add (y_coord X) (num_sub (y_coord (xy block)) (y_coord X)) = y_coord (xy block)"
    proof (cases "X = xy block")
      case True
      show ?thesis unfolding True by (simp only: num_same)
    next
      case False
      with X obtain cc where cc: "newCoordinate e = Some cc"
        "X = Coordinate (num_add (x_coord (xy block)) (num_sub (x_coord cc) (x_coord (xy block))))
                     (num_add (y_coord (xy block)) (num_sub (y_coord cc) (y_coord (xy block))))"
        by blast
      from assms(6) None cc(1) obtain k l :: int
        where "cc = Coordinate (Num (of_int k)) (Num (of_int l))" by blast
      then have "x_coord cc \<noteq> NaN" "y_coord cc \<noteq> NaN" by simp_all
      from num_there_and_back [OF this(1), of "x_coord (xy block)"]
        num_there_and_back [OF this(2), of "y_coord (xy block)"]
      show ?thesis unfolding cc(2) by (simp only: Coordinate.sel simp_thms)
    qed
    define b2 where "b2 = b1\<lparr>plugged := None, xy := xy block\<rparr>"
    have "truthy_value (oldParentId e) = None \<or>
         (\<exists>pid. truthy_value (oldParentId e) = Some pid \<and> getBlockById ws1 pid \<noteq> None)"
      using old(1) by simp
    from run_False_found [OF assms(1,2) found1 this]
    have r: "run False e ws1 = (Returned, setBlock ws1 b2, [])"
      using old restored by (cases "xy block") (simp add: run_place_move b2_def b1_def)
    have g2: "getBlockById (setBlock ws1 b2) bid = Some b2"
      using found1 b1_id by (simp add: getBlockById_setBlock b2_def)
    have p2: "getParent b2 = None" "xy b2 = xy block" "plugged b2 = None"
      by (simp_all add: b2_def getParent_def)
    have "currentLocation e (setBlock ws1 b2) = currentLocation e ws"
      unfolding currentLocation_found [OF assms(1,2) g2] loc using par p2
      by (simp add: getRelativeToSurfaceXY_def)
    with r g2 p2 None show ?thesis by auto
  next
    case (Some link)
    obtain own target where link: "plugged block = Some (own, target)"
      using Some by (cases link) auto
    define pid where "pid = sourceBlock target"
    from assms(5) link obtain pb where
      wf: "pid \<noteq> []" "pid \<noteq> bid"
        "(if hasOutput block then outputConnection block else previousConnection block) = Some own"
        "getBlockById ws pid = Some pb"
        "(\<exists>n input. n \<noteq> [] \<and> getInput pb n = Some input \<and> connection pb input = Some target)
           \<or> (nextConnection pb = Some target \<and> ctype own = PREVIOUS_STATEMENT)"
      unfolding pid_def by blast
    have par: "getParent block = Some pid" using link by (simp add: getParent_def pid_def)
    have old: "oldParentId e = Some pid" "oldCoordinate e = None"
      "oldInputName e = map_option name (getInputWithBlock ws pid block)"
      using old_half [OF assms(4) loc] par by simp_all
    have pb1: "getBlockById ws1 pid = Some pb" using others wf(2,4) by simp
    define b0 where "b0 = b1\<lparr>plugged := None\<rparr>"
    have free: "plugged b0 = None" by (simp add: b0_def)
    have b0s: "b0 = block\<lparr>plugged := None, xy := X\<rparr>" by (simp add: b0_def b1_def)
    have bc: "(if hasOutput b0 then outputConnection b0 else previousConnection b0) = Some own"
      unfolding b0s chosen_connection_shape using wf(3) by simp
    have rec: "run_reconnect b0 (Some pb) (oldInputName e)
        = (Returned, b0\<lparr>plugged := Some (own, target)\<rparr>, [])"
    proof (cases "getInputWithBlock ws pid block")
      case None
      have "\<not> (\<exists>n input. n \<noteq> [] \<and> getInput pb n = Some input
          \<and> connection pb input = Some target)"
        using getInputWithBlock_None [OF wf(4) None] link by auto
      with wf(5) have nx: "nextConnection pb = Some target" "ctype own = PREVIOUS_STATEMENT"
        by auto
      from None old(3) have "truthy_value (oldInputName e) = None" by simp
      from reconnect_next [OF free this bc nx(2) nx(1)] show ?thesis .
    next
      case (Some i)
      from getInputWithBlock_Some [OF wf(4) Some] link
      have ci: "connection pb i = Some target" by simp
      from connection_port [OF ci] have pt: "port target = InputPort (name i)" .
      have "\<not> (nextConnection pb = Some target)"
        using pt by (auto dest: nextConnection_port)
      with wf(5) obtain n input where
        ni: "n \<noteq> []" "getInput pb n = Some input" "connection pb input = Some target"
        by blast
      from connection_port [OF ni(3)] pt getInput_name [OF ni(2)] have "n = name i" by simp
      with ni have
        inp: "name i \<noteq> []" "getInput pb (name i) = Some input" "connection pb input = Some target"
        by simp_all
      from Some old(3) inp(1) have "truthy_value (oldInputName e) = Some (name i)" by simp
      from reconnect_named [OF free this inp(2,3) bc] show ?thesis .
    qed
    define b2 where "b2 = b0\<lparr>plugged := Some (own, target)\<rparr>"
    have "truthy_value (oldParentId e) = None \<or>
         (\<exists>p. truthy_value (oldParentId e) = Some p \<and> getBlockById ws1 p \<noteq> None)"
      using old(1) wf(1) pb1 by simp
    from run_False_found [OF assms(1,2) found1 this]
    have r: "run False e ws1 = (Returned, setBlock ws1 b2, [])"
      using old wf(1) pb1 rec
      by (simp add: run_place_reconnect b2_def b0_def)
    have b2_id: "block_id b2 = bid" by (simp add: b2_def b0_def b1_id)
    have g2: "getBlockById (setBlock ws1 b2) bid = Some b2"
      using found1 b2_id by (simp add: getBlockById_setBlock)
    have p2: "plugged b2 = plugged block" using link by (simp add: b2_def)
    then have par2: "getParent b2 = Some pid" using par by (simp add: getParent_def)
    have "getBlockById (setBlock ws1 b2) pid = getBlockById ws pid"
      using wf(2) b2_id others by (simp add: getBlockById_setBlock)
    from getInputWithBlock_cong [OF this p2]
    have "currentLocation e (setBlock ws1 b2) = currentLocation e ws"
      unfolding currentLocation_found [OF assms(1,2) g2] loc using par par2 by simp
    with r g2 p2 link show ?thesis by auto
  qed
qed

theorem run_round_trip_witness:
  "(\<exists>ws1 l1 ws2 block2.
      run True (ex_move ''h'' (Some ''p'', Some ''A'', None)
                  (None, None, Some (Coordinate (Num 9) (Num 9)))) ex_workspace
        = (Returned, ws1, l1)
      \<and> getBlockById ws1 ''h''
          = Some (ex_shadow\<lparr>plugged := None, xy := Coordinate (Num 9) (Num 9)\<rparr>)
      \<and> run False (ex_move ''h'' (Some ''p'', Some ''A'', None)
                  (None, None, Some (Coordinate (Num 9) (Num 9)))) ws1
        = (Returned, ws2, [])
      \<and> getBlockById ws2 ''h'' = Some block2 \<and> plugged block2 = plugged ex_shadow)
   \<and> (\<exists>ws1 l1 ws2 block2.
      run True (ex_move ''b'' (None, None, Some (Coordinate (Num 3) (Num 3)))
                  (Some ''p'', Some ''A'', None)) ex_workspace
        = (Returned, ws1, l1)
      \<and> map_option getParent (getBlockById ws1 ''b'') = Some (Some ''p'')
      \<and> run False (ex_move ''b'' (None, None, Some (Coordinate (Num 3) (Num 3)))
                  (Some ''p'', Some ''A'', None)) ws1
        = (Returned, ws2, [])
      \<and> getBlockById ws2 ''b'' = Some block2 \<and> plugged block2 = None
      \<and> xy block2 = Coordinate (Num 3) (Num 3))
   \<and> (\<exists>ws1 l1 ws2 block2.
      run True (ex_move ''b'' (None, None, Some (Coordinate (Num 3) (Num 3)))
                  (None, None, Some (Coordinate (Num 9) (Num 9)))) ex_workspace
        = (Returned, ws1, l1)
      \<and> map_option xy (getBlockById ws1 ''b'') = Some (Coordinate (Num 9) (Num 9))
      \<and> run False (ex_move ''b'' (None, None, Some (Coordinate (Num 3) (Num 3)))
                  (None, None, Some (Coordinate (Num 9) (Num 9)))) ws1
        = (Returned, ws2, [])
      \<and> getBlockById ws2 ''b'' = Some block2 \<and> plugged block2 = None
      \<and> xy block2 = Coordinate (Num 3) (Num 3))"
proof (intro conjI)
  show "\<exists>ws1 l1 ws2 block2.
      run True (ex_move ''h'' (Some ''p'', Some ''A'', None)
                  (None, None, Some (Coordinate (Num 9) (Num 9)))) ex_workspace
        = (Returned, ws1, l1)
      \<and> getBlockById ws1 ''h''
          = Some (ex_shadow\<lparr>plugged := None, xy := Coordinate (Num 9) (Num 9)\<rparr>)
      \<and> run False (ex_move ''h'' (Some ''p'', Some ''A'', None)
                  (None, None, Some (Coordinate (Num 9) (Num 9)))) ws1
        = (Returned, ws2, [])
      \<and> getBlockById ws2 ''h'' = Some block2 \<and> plugged block2 = plugged ex_shadow"
  proof -
    let ?e = "ex_move ''h'' (Some ''p'', Some ''A'', None)
                    (None, None, Some (Coordinate (Num 9) (Num 9)))"
    have h1: "blockId ?e = Some ''h''" by (simp add: ex_move_def)
    have h2: "''h'' \<noteq> []" by simp
    have h3: "getBlockById ex_workspace ''h'' = Some ex_shadow" by code_simp
    have pp: "getBlockById ex_workspace ''p'' = Some ex_parent" by code_simp
    have h4: "currentLocation ?e ex_workspace
           = Inr \<lparr>location_parentId = oldParentId ?e, location_inputName = oldInputName ?e,
                  location_coordinate = oldCoordinate ?e\<rparr>" by code_simp
    have gi: "getInput ex_parent ''A'' = Some \<lparr>name = ''A'', input_type = Some INPUT_VALUE\<rparr>"
      by code_simp
    have h5: "\<forall>own target. plugged ex_shadow = Some (own, target) \<longrightarrow>
             sourceBlock target \<noteq> [] \<and> sourceBlock target \<noteq> ''h''
             \<and> (if hasOutput ex_shadow then outputConnection ex_shadow
                 else previousConnection ex_shadow) = Some own
             \<and> (\<exists>pb. getBlockById ex_workspace (sourceBlock target) = Some pb
                  \<and> ((\<exists>n input. n \<noteq> [] \<and> getInput pb n = Some input
                          \<and> connection pb input = Some target)
                      \<or> (nextConnection pb = Some target \<and> ctype own = PREVIOUS_STATEMENT)))"
    proof (intro allI impI)
      fix own target
      assume "plugged ex_shadow = Some (own, target)"
      then have ot: "own = \<lparr>sourceBlock = ''h'', port = OutputPort, ctype = OUTPUT_VALUE\<rparr>"
        "target = \<lparr>sourceBlock = ''p'', port = InputPort ''A'', ctype = INPUT_VALUE\<rparr>"
        by (simp_all add: ex_shadow_def)
      have c: "connection ex_parent \<lparr>name = ''A'', input_type = Some INPUT_VALUE\<rparr> = Some target"
        unfolding ot by (simp add: connection_def ex_parent_def)
      have o: "(if hasOutput ex_shadow then outputConnection ex_shadow
                 else previousConnection ex_shadow) = Some own"
        unfolding ot by (simp add: outputConnection_def ex_shadow_def)
      have s: "sourceBlock target = ''p''" unfolding ot by simp
      from gi c have "\<exists>n input. n \<noteq> [] \<and> getInput ex_parent n = Some input
                          \<and> connection ex_parent input = Some target"
        by (intro exI [of _ "''A''"] exI [of _ "\<lparr>name = ''A'', input_type = Some INPUT_VALUE\<rparr>"]) simp
      with o pp s show "sourceBlock target \<noteq> [] \<and> sourceBlock target \<noteq> ''h''
             \<and> (if hasOutput ex_shadow then outputConnection ex_shadow
                 else previousConnection ex_shadow) = Some own
             \<and> (\<exists>pb. getBlockById ex_workspace (sourceBlock target) = Some pb
                  \<and> ((\<exists>n input. n \<noteq> [] \<and> getInput pb n = Some input
                          \<and> connection pb input = Some target)
                      \<or> (nextConnection pb = Some target \<and> ctype own = PREVIOUS_STATEMENT)))"
        by simp
    qed
    have h6: "plugged ex_shadow = None \<longrightarrow>
           (\<exists>i j :: int. xy ex_shadow = Coordinate (Num (of_int i)) (Num (of_int j))
              \<and> \<bar>i\<bar> \<le> 2 ^ 52 \<and> \<bar>j\<bar> \<le> 2 ^ 52)
           \<and> (\<forall>c. newCoordinate ?e = Some c \<longrightarrow>
                (\<exists>k l :: int. c = Coordinate (Num (of_int k)) (Num (of_int l))
                   \<and> \<bar>k\<bar> \<le> 2 ^ 52 \<and> \<bar>l\<bar> \<le> 2 ^ 52))"
      by (simp add: ex_shadow_def)
    have f: "fst (run True ?e ex_workspace) = Returned" by code_simp
    have g: "getBlockById (fst (snd (run True ?e ex_workspace))) ''h''
            = Some (ex_shadow\<lparr>plugged := None, xy := Coordinate (Num 9) (Num 9)\<rparr>)"
      by code_simp
    obtain ws1 l1 where fwd: "run True ?e ex_workspace = (Returned, ws1, l1)"
      using f by (cases "run True ?e ex_workspace") auto
    from g fwd have g1: "getBlockById ws1 ''h''
            = Some (ex_shadow\<lparr>plugged := None, xy := Coordinate (Num 9) (Num 9)\<rparr>)" by simp
    from run_round_trip [OF h1 h2 h3 h4 h5 h6 fwd] fwd g1 show ?thesis by blast
  qed
  show "\<exists>ws1 l1 ws2 block2.
      run True (ex_move ''b'' (None, None, Some (Coordinate (Num 3) (Num 3)))
                  (Some ''p'', Some ''A'', None)) ex_workspace
        = (Returned, ws1, l1)
      \<and> map_option getParent (getBlockById ws1 ''b'') = Some (Some ''p'')
      \<and> run False (ex_move ''b'' (None, None, Some (Coordinate (Num 3) (Num 3)))
                  (Some ''p'', Some ''A'', None)) ws1
        = (Returned, ws2, [])
      \<and> getBlockById ws2 ''b'' = Some block2 \<and> plugged block2 = None
      \<and> xy block2 = Coordinate (Num 3) (Num 3)"
  proof -
    let ?e = "ex_move ''b'' (None, None, Some (Coordinate (Num 3) (Num 3)))
                    (Some ''p'', Some ''A'', None)"
    have h1: "blockId ?e = Some ''b''" by (simp add: ex_move_def)
    have h2: "''b'' \<noteq> []" by simp
    have h3: "getBlockById ex_workspace ''b'' = Some ex_block" by code_simp
    have h4: "currentLocation ?e ex_workspace
           = Inr \<lparr>location_parentId = oldParentId ?e, location_inputName = oldInputName ?e,
                  location_coordinate = oldCoordinate ?e\<rparr>" by code_simp
    have free: "plugged ex_block = None" by (simp add: ex_block_def)
    have h5: "\<forall>own target. plugged ex_block = Some (own, target) \<longrightarrow>
             sourceBlock target \<noteq> [] \<and> sourceBlock target \<noteq> ''b''
             \<and> (if hasOutput ex_block then outputConnection ex_block
                 else previousConnection ex_block) = Some own
             \<and> (\<exists>pb. getBlockById ex_workspace (sourceBlock target) = Some pb
                  \<and> ((\<exists>n input. n \<noteq> [] \<and> getInput pb n = Some input
                          \<and> connection pb input = Some target)
                      \<or> (nextConnection pb = Some target \<and> ctype own = PREVIOUS_STATEMENT)))"
      unfolding free by simp
    have whole: "\<exists>i j :: int. xy ex_block = Coordinate (Num (of_int i)) (Num (of_int j))
              \<and> \<bar>i\<bar> \<le> 2 ^ 52 \<and> \<bar>j\<bar> \<le> 2 ^ 52"
      by (rule exI [of _ 3], rule exI [of _ 3]) (simp add: ex_block_def)
    have target: "\<forall>c. newCoordinate ?e = Some c \<longrightarrow>
                (\<exists>k l :: int. c = Coordinate (Num (of_int k)) (Num (of_int l))
                   \<and> \<bar>k\<bar> \<le> 2 ^ 52 \<and> \<bar>l\<bar> \<le> 2 ^ 52)"
      by (simp add: ex_move_def)
    have h6: "plugged ex_block = None \<longrightarrow>
           (\<exists>i j :: int. xy ex_block = Coordinate (Num (of_int i)) (Num (of_int j))
              \<and> \<bar>i\<bar> \<le> 2 ^ 52 \<and> \<bar>j\<bar> \<le> 2 ^ 52)
           \<and> (\<forall>c. newCoordinate ?e = Some c \<longrightarrow>
                (\<exists>k l :: int. c = Coordinate (Num (of_int k)) (Num (of_int l))
                   \<and> \<bar>k\<bar> \<le> 2 ^ 52 \<and> \<bar>l\<bar> \<le> 2 ^ 52))"
      using whole target by blast
    have f: "fst (run True ?e ex_workspace) = Returned" by code_simp
    have g: "map_option getParent (getBlockById (fst (snd (run True ?e ex_workspace))) ''b'')
            = Some (Some ''p'')"
      by code_simp
    obtain ws1 l1 where fwd: "run True ?e ex_workspace = (Returned, ws1, l1)"
      using f by (cases "run True ?e ex_workspace") auto
    from g fwd have g1: "map_option getParent (getBlockById ws1 ''b'') = Some (Some ''p'')"
      by simp
    from run_round_trip [OF h1 h2 h3 h4 h5 h6 fwd] obtain ws2 block2 where
      r: "run False ?e ws1 = (Returned, ws2, [])" "getBlockById ws2 ''b'' = Some block2"
        "plugged block2 = plugged ex_block" "plugged ex_block = None \<longrightarrow> xy block2 = xy ex_block"
      by (elim exE conjE) (rule that)
    from r(3,4) free have "plugged block2 = None" "xy block2 = Coordinate (Num 3) (Num 3)"
      by (simp_all add: ex_block_def)
    with fwd g1 r(1,2) show ?thesis by blast
  qed
  show "\<exists>ws1 l1 ws2 block2.
      run True (ex_move ''b'' (None, None, Some (Coordinate (Num 3) (Num 3)))
                  (None, None, Some (Coordinate (Num 9) (Num 9)))) ex_workspace
        = (Returned, ws1, l1)
      \<and> map_option xy (getBlockById ws1 ''b'') = Some (Coordinate (Num 9) (Num 9))
      \<and> run False (ex_move ''b'' (None, None, Some (Coordinate (Num 3) (Num 3)))
                  (None, None, Some (Coordinate (Num 9) (Num 9)))) ws1
        = (Returned, ws2, [])
      \<and> getBlockById ws2 ''b'' = Some block2 \<and> plugged block2 = None
      \<and> xy block2 = Coordinate (Num 3) (Num 3)"
  proof -
    let ?e = "ex_move ''b'' (None, None, Some (Coordinate (Num 3) (Num 3)))
                    (None, None, Some (Coordinate (Num 9) (Num 9)))"
    have h1: "blockId ?e = Some ''b''" by (simp add: ex_move_def)
    have h2: "''b'' \<noteq> []" by simp
    have h3: "getBlockById ex_workspace ''b'' = Some ex_block" by code_simp
    have h4: "currentLocation ?e ex_workspace
           = Inr \<lparr>location_parentId = oldParentId ?e, location_inputName = oldInputName ?e,
                  location_coordinate = oldCoordinate ?e\<rparr>" by code_simp
    have free: "plugged ex_block = None" by (simp add: ex_block_def)
    have h5: "\<forall>own target. plugged ex_block = Some (own, target) \<longrightarrow>
             sourceBlock target \<noteq> [] \<and> sourceBlock target \<noteq> ''b''
             \<and> (if hasOutput ex_block then outputConnection ex_block
                 else previousConnection ex_block) = Some own
             \<and> (\<exists>pb. getBlockById ex_workspace (sourceBlock target) = Some pb
                  \<and> ((\<exists>n input. n \<noteq> [] \<and> getInput pb n = Some input
                          \<and> connection pb input = Some target)
                      \<or> (nextConnection pb = Some target \<and> ctype own = PREVIOUS_STATEMENT)))"
      unfolding free by simp
    have whole: "\<exists>i j :: int. xy ex_block = Coordinate (Num (of_int i)) (Num (of_int j))
              \<and> \<bar>i\<bar> \<le> 2 ^ 52 \<and> \<bar>j\<bar> \<le> 2 ^ 52"
      by (rule exI [of _ 3], rule exI [of _ 3]) (simp add: ex_block_def)
    have target: "\<forall>c. newCoordinate ?e = Some c \<longrightarrow>
                (\<exists>k l :: int. c = Coordinate (Num (of_int k)) (Num (of_int l))
                   \<and> \<bar>k\<bar> \<le> 2 ^ 52 \<and> \<bar>l\<bar> \<le> 2 ^ 52)"
    proof (intro allI impI)
      fix c
      assume "newCoordinate ?e = Some c"
      then have c: "c = Coordinate (Num 9) (Num 9)" by (simp add: ex_move_def)
      show "\<exists>k l :: int. c = Coordinate (Num (of_int k)) (Num (of_int l))
                   \<and> \<bar>k\<bar> \<le> 2 ^ 52 \<and> \<bar>l\<bar> \<le> 2 ^ 52"
        unfolding c by (rule exI [of _ 9], rule exI [of _ 9]) simp
    qed
    have h6: "plugged ex_block = None \<longrightarrow>
           (\<exists>i j :: int. xy ex_block = Coordinate (Num (of_int i)) (Num (of_int j))
              \<and> \<bar>i\<bar> \<le> 2 ^ 52 \<and> \<bar>j\<bar> \<le> 2 ^ 52)
           \<and> (\<forall>c. newCoordinate ?e = Some c \<longrightarrow>
                (\<exists>k l :: int. c = Coordinate (Num (of_int k)) (Num (of_int l))
                   \<and> \<bar>k\<bar> \<le> 2 ^ 52 \<and> \<bar>l\<bar> \<le> 2 ^ 52))"
      using whole target by blast
    have f: "fst (run True ?e ex_workspace) = Returned" by code_simp
    have g: "map_option xy (getBlockById (fst (snd (run True ?e ex_workspace))) ''b'')
            = Some (Coordinate (Num 9) (Num 9))"
      by code_simp
    obtain ws1 l1 where fwd: "run True ?e ex_workspace = (Returned, ws1, l1)"
      using f by (cases "run True ?e ex_workspace") auto
    from g fwd have g1: "map_option xy (getBlockById ws1 ''b'') = Some (Coordinate (Num 9) (Num 9))"
      by simp
    from run_round_trip [OF h1 h2 h3 h4 h5 h6 fwd] obtain ws2 block2 where
      r: "run False ?e ws1 = (Returned, ws2, [])" "getBlockById ws2 ''b'' = Some block2"
        "plugged block2 = plugged ex_block" "plugged ex_block = None \<longrightarrow> xy block2 = xy ex_block"
      by (elim exE conjE) (rule that)
    from r(3,4) free have "plugged block2 = None" "xy block2 = Coordinate (Num 3) (Num 3)"
      by (simp_all add: ex_block_def)
    with fwd g1 r(1,2) show ?thesis by blast
  qed
qed

text \<open>
  C1 as stated fails: the block \<open>b\<close> exists at (3, 3), the event records a move from
  (10, 10) to (20, 20); both runs return, and the block ends at (10, 10).
\<close>

theorem run_round_trip_counterexample:
  "map_option xy (getBlockById ex_workspace ''b'') = Some (Coordinate (Num 3) (Num 3))
   \<and> fst (run True (ex_move ''b'' (None, None, Some (Coordinate (Num 10) (Num 10)))
                      (None, None, Some (Coordinate (Num 20) (Num 20)))) ex_workspace) = Returned
   \<and> fst (run False (ex_move ''b'' (None, None, Some (Coordinate (Num 10) (Num 10)))
                      (None, None, Some (Coordinate (Num 20) (Num 20))))
          (fst (snd (run True (ex_move ''b'' (None, None, Some (Coordinate (Num 10) (Num 10)))
                      (None, None, Some (Coordinate (Num 20) (Num 20)))) ex_workspace)))) = Returned
   \<and> map_option xy (getBlockById
        (fst (snd (run False (ex_move ''b'' (None, None, Some (Coordinate (Num 10) (Num 10)))
                      (None, None, Some (Coordinate (Num 20) (Num 20))))
          (fst (snd (run True (ex_move ''b'' (None, None, Some (Coordinate (Num 10) (Num 10)))
                      (None, None, Some (Coordinate (Num 20) (Num 20)))) ex_workspace))))))
        ''b'') = Some (Coordinate (Num 10) (Num 10))"
  by code_simp

text \<open>
  C2, as the code has it. \<open>toJson\<close> rounds the coordinates, so \<open>fromJson (toJson e)\<close>
  replays as \<open>e\<close> does when the coordinates of \<open>e\<close> that are defined have integer
  components: then \<open>run\<close> of the event reconstructed for the workspace gives the same
  completion, document and warnings as \<open>run\<close> of \<open>e\<close>, in both directions.
\<close>

theorem toJson_fromJson_replay:
  assumes "oldCoordinate e = None
      \<or> oldCoordinate e = Some (Coordinate (Num (of_int i)) (Num (of_int j)))"
    and "newCoordinate e = None
      \<or> newCoordinate e = Some (Coordinate (Num (of_int k)) (Num (of_int l)))"
  shows "run forward (fromJson ctx (toJson e) ws None) ws = run forward e ws"
proof (rule run_fields)
  have old: "\<forall>c. oldCoordinate e = Some c
      \<longrightarrow> (\<exists>i j. c = Coordinate (Num (of_int i)) (Num (of_int j)))"
    using assms(1) by auto
  have new: "\<forall>c. newCoordinate e = Some c
      \<longrightarrow> (\<exists>i j. c = Coordinate (Num (of_int i)) (Num (of_int j)))"
    using assms(2) by auto
  show "oldCoordinate (fromJson ctx (toJson e) ws None) = oldCoordinate e"
    by (simp add: fromJson_fields toJson_coordinate_strings BlockBase_new_def
        integral_roundtrip [OF old] del: get_string.simps)
  show "newCoordinate (fromJson ctx (toJson e) ws None) = newCoordinate e"
    by (simp add: fromJson_fields toJson_coordinate_strings BlockBase_new_def
        integral_roundtrip [OF new] del: get_string.simps)
qed (simp_all add: fromJson_fields toJson_strings del: get_string.simps)

theorem toJson_fromJson_replay_witness:
  "run True (fromJson ex_context
       (toJson (ex_move ''b'' (None, None, Some (Coordinate (Num 3) (Num 3)))
                  (None, None, Some (Coordinate (Num 40) (Num (- 2))))))
       ex_workspace None) ex_workspace
   = run True (ex_move ''b'' (None, None, Some (Coordinate (Num 3) (Num 3)))
                  (None, None, Some (Coordinate (Num 40) (Num (- 2))))) ex_workspace
   \<and> run False (fromJson ex_context
       (toJson (ex_move ''b'' (None, None, Some (Coordinate (Num 3) (Num 3)))
                  (None, None, Some (Coordinate (Num 40) (Num (- 2))))))
       ex_workspace None) ex_workspace
   = run False (ex_move ''b'' (None, None, Some (Coordinate (Num 3) (Num 3)))
                  (None, None, Some (Coordinate (Num 40) (Num (- 2))))) ex_workspace"
proof -
  let ?e = "ex_move ''b'' (None, None, Some (Coordinate (Num 3) (Num 3)))
                  (None, None, Some (Coordinate (Num 40) (Num (- 2))))"
  have old: "oldCoordinate ?e = None
      \<or> oldCoordinate ?e = Some (Coordinate (Num (of_int 3)) (Num (of_int 3)))"
    by (simp add: ex_move_def)
  have new: "newCoordinate ?e = None
      \<or> newCoordinate ?e = Some (Coordinate (Num (of_int 40)) (Num (of_int (- 2))))"
    by (simp add: ex_move_def)
  from toJson_fromJson_replay [OF old new] show ?thesis by simp
qed

text \<open>
  C2 as stated fails: an event that moves block \<open>b\<close> to (10.5, 0) is serialized with
  the coordinate text "11, 0", and the reconstructed event moves the block to (11, 0).
\<close>

theorem toJson_fromJson_counterexample:
  "run True (fromJson ex_context
       (toJson (ex_move ''b'' (None, None, Some (Coordinate (Num 3) (Num 3)))
                  (None, None, Some (Coordinate (Num (21 / 2)) (Num 0)))))
       ex_workspace None) ex_workspace
   \<noteq> run True (ex_move ''b'' (None, None, Some (Coordinate (Num 3) (Num 3)))
                  (None, None, Some (Coordinate (Num (21 / 2)) (Num 0)))) ex_workspace"
  by code_simp

text \<open>
  C3: \<open>isNull\<close> holds exactly when the old and the new parent id, input name and
  coordinate are equal, an undefined coordinate being equal to an undefined one (the
  components of the coordinates are numbers, not \<open>NaN\<close>). A move from (10, 10) to
  (10, 10) is null, a move from (10, 10) to (10, 11) is not.
\<close>

theorem isNull_iff:
  "((\<forall>c. oldCoordinate e = Some c \<longrightarrow> x_coord c \<noteq> NaN \<and> y_coord c \<noteq> NaN)
      \<and> (\<forall>c. newCoordinate e = Some c \<longrightarrow> x_coord c \<noteq> NaN \<and> y_coord c \<noteq> NaN)
    \<longrightarrow> isNull e
        = (oldParentId e = newParentId e \<and> oldInputName e = newInputName e
           \<and> oldCoordinate e = newCoordinate e))
   \<and> (oldParentId e = newParentId e \<and> oldInputName e = newInputName e
      \<longrightarrow> isNull (e\<lparr>oldCoordinate := Some (Coordinate (Num 10) (Num 10)),
                     newCoordinate := Some (Coordinate (Num 10) (Num 10))\<rparr>))
   \<and> \<not> isNull (e\<lparr>oldCoordinate := Some (Coordinate (Num 10) (Num 10)),
                  newCoordinate := Some (Coordinate (Num 10) (Num 11))\<rparr>)"
  by (simp add: isNull_def Coordinate_equals_iff)

theorem isNull_iff_witness:
  "isNull (ex_move ''b'' (None, None, None) (None, None, None))
   \<and> \<not> isNull (ex_move ''b'' (None, None, None) (Some ''p'', None, None))
   \<and> \<not> isNull (ex_move ''b'' (Some ''p'', Some ''A'', None) (Some ''p'', Some ''B'', None))
   \<and> isNull ((ex_move ''b'' (None, None, None) (None, None, None))
        \<lparr>oldCoordinate := Some (Coordinate (Num 10) (Num 10)),
         newCoordinate := Some (Coordinate (Num 10) (Num 10))\<rparr>)
   \<and> \<not> isNull ((ex_move ''b'' (None, None, None) (None, None, None))
        \<lparr>oldCoordinate := Some (Coordinate (Num 10) (Num 10)),
         newCoordinate := Some (Coordinate (Num 10) (Num 11))\<rparr>)"
  using isNull_iff [of "ex_move ''b'' (None, None, None) (None, None, None)"]
    isNull_iff [of "ex_move ''b'' (None, None, None) (Some ''p'', None, None)"]
    isNull_iff [of "ex_move ''b'' (Some ''p'', Some ''A'', None) (Some ''p'', Some ''B'', None)"]
  by (simp add: ex_move_def)

text \<open>
  C4: when the block id of the event is a non-empty string that no block of the
  workspace has, or the block is found and the parent id of the target location is a
  non-empty string that no block has, \<open>run\<close> returns without throwing, writes one
  warning and leaves the document as it was.
\<close>

theorem run_missing_reference:
  assumes "blockId e = Some bid" and "bid \<noteq> []"
  shows "(getBlockById ws bid = None
           \<longrightarrow> run forward e ws = (Returned, ws, [''Can't move non-existent block: '' @ bid]))
       \<and> (getBlockById ws bid \<noteq> None
            \<and> (if forward then newParentId e else oldParentId e) = Some pid \<and> pid \<noteq> []
            \<and> getBlockById ws pid = None
           \<longrightarrow> run forward e ws
               = (Returned, ws, [''Can't connect to non-existent block: '' @ pid]))"
  using assms by (auto simp add: run_def)

theorem run_missing_reference_witness:
  "run True (ex_move ''zz'' (None, None, Some (Coordinate (Num 0) (Num 0)))
               (Some ''p'', None, None)) ex_workspace
   = (Returned, ex_workspace, [''Can't move non-existent block: zz''])
   \<and> run False (ex_move ''s'' (Some ''q'', None, None)
                  (None, None, Some (Coordinate (Num 5) (Num 8)))) ex_workspace
   = (Returned, ex_workspace, [''Can't connect to non-existent block: q''])"
  using run_missing_reference [of "ex_move ''zz'' (None, None, Some (Coordinate (Num 0) (Num 0)))
               (Some ''p'', None, None)" "''zz''" ex_workspace True "''p''"]
    run_missing_reference [of "ex_move ''s'' (Some ''q'', None, None)
                  (None, None, Some (Coordinate (Num 5) (Num 8)))" "''s''" ex_workspace False "''q''"]
  by (simp add: ex_defs getBlockById_def)

text \<open>
  C5, as the code has it. When \<open>run\<close> reconnects a block (the target location has no
  coordinate and its parent, if one is named, is found), the block-side connection it
  connects is the output connection whenever the block has one, also when the block
  has a previous connection as well; it is the previous connection only when the
  block has no output connection.
\<close>

theorem run_block_connection:
  assumes "blockId e = Some bid" and "bid \<noteq> []" and "getBlockById ws bid = Some block"
    and "\<forall>pid. truthy_value (if forward then newParentId e else oldParentId e) = Some pid
           \<longrightarrow> getBlockById ws pid \<noteq> None"
    and "(if forward then newCoordinate e else oldCoordinate e) = None"
    and "run forward e ws = (completion, ws', console)"
    and "getBlockById ws' bid = Some block'"
    and "plugged block' = Some (own, target)"
  shows "Some own = (if hasOutput block then outputConnection block else previousConnection block)"
proof -
  let ?b = "block\<lparr>plugged := None\<rparr>"
  let ?pb = "case truthy_value (if forward then newParentId e else oldParentId e) of
            None \<Rightarrow> None | Some pid \<Rightarrow> getBlockById ws pid"
  let ?n = "if forward then newInputName e else oldInputName e"
  obtain c b l where r: "run_reconnect ?b ?pb ?n = (c, b, l)"
    by (cases "run_reconnect ?b ?pb ?n") auto
  have id: "block_id block = bid" using assms(3) by (rule getBlockById_id)
  from run_reconnect_id [OF r] id have idb: "block_id b = bid" by simp
  have "run forward e ws = (c, setBlock ws b, l)"
    using run_found [OF assms(1-4)] assms(5) r by (simp add: run_place_reconnect)
  with assms(6) have "ws' = setBlock ws b" by simp
  with assms(3,7) idb have "block' = b" by (simp add: getBlockById_setBlock)
  with assms(8) have p: "plugged b = Some (own, target)" by simp
  have free: "plugged ?b = None" by simp
  from r p show ?thesis
    unfolding run_reconnect_free [OF free]
    by (auto simp add: outputConnection_def previousConnection_def
        split: option.splits sum.splits if_splits)
qed

theorem run_block_connection_witness:
  "\<exists>ws' l block' own target.
      run True (ex_move ''c'' (None, None, Some (Coordinate (Num 7) (Num 7)))
                  (Some ''p'', Some ''A'', None)) ex_workspace = (Returned, ws', l)
      \<and> getBlockById ws' ''c'' = Some block' \<and> plugged block' = Some (own, target)
      \<and> Some own = outputConnection ex_both \<and> port own = OutputPort"
proof -
  let ?e = "ex_move ''c'' (None, None, Some (Coordinate (Num 7) (Num 7)))
                  (Some ''p'', Some ''A'', None)"
  have h1: "blockId ?e = Some ''c''" by (simp add: ex_move_def)
  have h2: "''c'' \<noteq> []" by simp
  have h3: "getBlockById ex_workspace ''c'' = Some ex_both" by code_simp
  have pp: "getBlockById ex_workspace ''p'' = Some ex_parent" by code_simp
  have h4: "\<forall>pid. truthy_value (if True then newParentId ?e else oldParentId ?e) = Some pid
           \<longrightarrow> getBlockById ex_workspace pid \<noteq> None"
    using pp by (simp add: ex_move_def)
  have h5: "(if True then newCoordinate ?e else oldCoordinate ?e) = None"
    by (simp add: ex_move_def)
  have f: "fst (run True ?e ex_workspace) = Returned" by code_simp
  have g: "map_option (\<lambda>b. plugged b \<noteq> None)
             (getBlockById (fst (snd (run True ?e ex_workspace))) ''c'') = Some True"
    by code_simp
  obtain ws' l where r: "run True ?e ex_workspace = (Returned, ws', l)"
    using f by (cases "run True ?e ex_workspace") auto
  with g obtain block' own target where
    b: "getBlockById ws' ''c'' = Some block'" "plugged block' = Some (own, target)"
    by (cases "getBlockById ws' ''c''") auto
  from run_block_connection [OF h1 h2 h3 h4 h5 r b]
  have "Some own = outputConnection ex_both" by (simp add: ex_both_def)
  moreover from this have "port own = OutputPort"
    by (auto simp add: outputConnection_def ex_both_def)
  ultimately show ?thesis using r b by blast
qed

text \<open>
  C5 as stated fails: the block \<open>c\<close> has both an output and a previous connection;
  \<open>run\<close> connects it to the input \<open>A\<close> of \<open>p\<close> by its output connection.
\<close>

theorem run_block_connection_counterexample:
  "outputConnection ex_both \<noteq> None \<and> previousConnection ex_both \<noteq> None
   \<and> map_option (\<lambda>b. map_option fst (plugged b))
        (getBlockById
          (fst (snd (run True (ex_move ''c'' (None, None, Some (Coordinate (Num 7) (Num 7)))
                                (Some ''p'', Some ''A'', None)) ex_workspace))) ''c'')
      = Some (outputConnection ex_both)"
  by code_simp

text \<open>
  C6: when \<open>run\<close> reconnects a block to a parent that is found, and the target location
  names an input that the parent has, with a connection, the block ends connected to
  the connection of that input (whether or not the parent has a next connection).
  Whenever the block ends connected to a next connection, no input name was given, the
  block-side connection is a previous-statement connection, and the next connection is
  the parent's. With no input name, a block with only a previous connection ends
  connected to the parent's next connection.
\<close>

theorem run_parent_connection:
  assumes "blockId e = Some bid" and "bid \<noteq> []" and "getBlockById ws bid = Some block"
    and "(if forward then newParentId e else oldParentId e) = Some pid" and "pid \<noteq> []"
    and "getBlockById ws pid = Some pb"
    and "(if forward then newCoordinate e else oldCoordinate e) = None"
    and "run forward e ws = (completion, ws', console)"
  shows "\<exists>block'. getBlockById ws' bid = Some block'
     \<and> (\<forall>n input pc.
           (if forward then newInputName e else oldInputName e) = Some n \<and> n \<noteq> []
           \<and> getInput pb n = Some input \<and> connection pb input = Some pc
           \<and> (hasOutput block \<or> hasPrevious block)
           \<longrightarrow> completion = Returned \<and> map_option snd (plugged block') = Some pc)
     \<and> (\<forall>own target.
           plugged block' = Some (own, target) \<and> port target = NextPort
           \<longrightarrow> truthy_value (if forward then newInputName e else oldInputName e) = None
               \<and> ctype own = PREVIOUS_STATEMENT \<and> nextConnection pb = Some target)
     \<and> (\<forall>own target.
           truthy_value (if forward then newInputName e else oldInputName e) = None
           \<and> \<not> hasOutput block \<and> previousConnection block = Some own
           \<and> nextConnection pb = Some target
           \<longrightarrow> completion = Returned \<and> plugged block' = Some (own, target))"
proof -
  let ?b = "block\<lparr>plugged := None\<rparr>"
  let ?n = "if forward then newInputName e else oldInputName e"
  obtain c b l where r: "run_reconnect ?b (Some pb) ?n = (c, b, l)"
    by (cases "run_reconnect ?b (Some pb) ?n") auto
  have id: "block_id block = bid" using assms(3) by (rule getBlockById_id)
  from run_reconnect_id [OF r] id have idb: "block_id b = bid" by simp
  have res: "\<forall>p. truthy_value (if forward then newParentId e else oldParentId e) = Some p
           \<longrightarrow> getBlockById ws p \<noteq> None"
    using assms(4-6) by auto
  have "run forward e ws = (c, setBlock ws b, l)"
    using run_found [OF assms(1-3) res] assms(4-7) r by (simp add: run_place_reconnect)
  with assms(8) have eq: "ws' = setBlock ws b" "completion = c" by simp_all
  with assms(3) idb have found: "getBlockById ws' bid = Some b" by (simp add: getBlockById_setBlock)
  have free: "plugged ?b = None" by simp
  have named: "c = Returned \<and> map_option snd (plugged b) = Some pc"
    if "?n = Some n" "n \<noteq> []" "getInput pb n = Some input" "connection pb input = Some pc"
      "hasOutput block \<or> hasPrevious block" for n input pc
  proof -
    from that(5) obtain bc
      where bc: "(if hasOutput ?b then outputConnection ?b else previousConnection ?b) = Some bc"
      by (cases "hasOutput block") (auto simp add: outputConnection_def previousConnection_def)
    from that(1,2) have t: "truthy_value ?n = Some n" by simp
    from reconnect_named [OF free t that(3,4) bc] r show ?thesis by auto
  qed
  have only: "truthy_value ?n = None \<and> ctype own = PREVIOUS_STATEMENT
      \<and> nextConnection pb = Some target"
    if "plugged b = Some (own, target)" "port target = NextPort" for own target
  proof (cases "truthy_value ?n")
    case None
    with reconnect_plugged [OF free r that(1)] show ?thesis by simp
  next
    case (Some n)
    with reconnect_plugged [OF free r that(1)] that(2) show ?thesis
      by (auto simp add: connection_def)
  qed
  have nxt: "c = Returned \<and> plugged b = Some (own, target)"
    if "truthy_value ?n = None" "\<not> hasOutput block" "previousConnection block = Some own"
      "nextConnection pb = Some target" for own target
  proof -
    from that(2,3)
    have bc: "(if hasOutput ?b then outputConnection ?b else previousConnection ?b) = Some own"
      by (auto simp add: previousConnection_def split: if_splits)
    from that(3) have ty: "ctype own = PREVIOUS_STATEMENT"
      by (auto simp add: previousConnection_def split: if_splits)
    from reconnect_next [OF free that(1) bc ty that(4)] r show ?thesis by auto
  qed
  from found eq named only nxt show ?thesis by blast
qed

theorem run_parent_connection_witness:
  "(\<exists>ws' l block'.
      run True (ex_move ''s'' (None, None, Some (Coordinate (Num 5) (Num 8)))
                  (Some ''p'', Some ''DO'', None)) ex_workspace = (Returned, ws', l)
      \<and> getBlockById ws' ''s'' = Some block'
      \<and> map_option snd (plugged block')
          = Some \<lparr>sourceBlock = ''p'', port = InputPort ''DO'', ctype = NEXT_STATEMENT\<rparr>)
   \<and> (\<exists>ws' l block'.
      run True (ex_move ''s'' (None, None, Some (Coordinate (Num 5) (Num 8)))
                  (Some ''p'', None, None)) ex_workspace = (Returned, ws', l)
      \<and> getBlockById ws' ''s'' = Some block'
      \<and> map_option snd (plugged block')
          = Some \<lparr>sourceBlock = ''p'', port = NextPort, ctype = NEXT_STATEMENT\<rparr>)"
proof -
  let ?e = "ex_move ''s'' (None, None, Some (Coordinate (Num 5) (Num 8)))
                  (Some ''p'', Some ''DO'', None)"
  let ?f = "ex_move ''s'' (None, None, Some (Coordinate (Num 5) (Num 8)))
                  (Some ''p'', None, None)"
  have h2: "''s'' \<noteq> []" and h5: "''p'' \<noteq> []" by simp_all
  have h3: "getBlockById ex_workspace ''s'' = Some ex_statement" by code_simp
  have h6: "getBlockById ex_workspace ''p'' = Some ex_parent" by code_simp
  have e1: "blockId ?e = Some ''s''" "(if True then newParentId ?e else oldParentId ?e) = Some ''p''"
    "(if True then newCoordinate ?e else oldCoordinate ?e) = None"
    by (simp_all add: ex_move_def)
  have f1: "blockId ?f = Some ''s''" "(if True then newParentId ?f else oldParentId ?f) = Some ''p''"
    "(if True then newCoordinate ?f else oldCoordinate ?f) = None"
    by (simp_all add: ex_move_def)
  obtain c ws' l where r: "run True ?e ex_workspace = (c, ws', l)"
    by (cases "run True ?e ex_workspace") auto
  obtain d ws'' k where s: "run True ?f ex_workspace = (d, ws'', k)"
    by (cases "run True ?f ex_workspace") auto
  have gi: "getInput ex_parent ''DO'' = Some \<lparr>name = ''DO'', input_type = Some NEXT_STATEMENT\<rparr>"
    by code_simp
  have ci: "connection ex_parent \<lparr>name = ''DO'', input_type = Some NEXT_STATEMENT\<rparr>
      = Some \<lparr>sourceBlock = ''p'', port = InputPort ''DO'', ctype = NEXT_STATEMENT\<rparr>"
    by (simp add: connection_def ex_parent_def)
  have nm: "(if True then newInputName ?e else oldInputName ?e) = Some ''DO''"
    by (simp add: ex_move_def)
  have hp: "hasOutput ex_statement \<or> hasPrevious ex_statement" by (simp add: ex_statement_def)
  from run_parent_connection [OF e1(1) h2 h3 e1(2) h5 h6 e1(3) r]
  obtain block' where b1: "getBlockById ws' ''s'' = Some block'
     \<and> (\<forall>n input pc.
           (if True then newInputName ?e else oldInputName ?e) = Some n \<and> n \<noteq> []
           \<and> getInput ex_parent n = Some input \<and> connection ex_parent input = Some pc
           \<and> (hasOutput ex_statement \<or> hasPrevious ex_statement)
           \<longrightarrow> c = Returned \<and> map_option snd (plugged block') = Some pc)
     \<and> (\<forall>own target.
           plugged block' = Some (own, target) \<and> port target = NextPort
           \<longrightarrow> truthy_value (if True then newInputName ?e else oldInputName ?e) = None
               \<and> ctype own = PREVIOUS_STATEMENT \<and> nextConnection ex_parent = Some target)
     \<and> (\<forall>own target.
           truthy_value (if True then newInputName ?e else oldInputName ?e) = None
           \<and> \<not> hasOutput ex_statement \<and> previousConnection ex_statement = Some own
           \<and> nextConnection ex_parent = Some target
           \<longrightarrow> c = Returned \<and> plugged block' = Some (own, target))" ..
  note b1' = this
  have g1: "getBlockById ws' ''s'' = Some block'" using b1' by (rule conjunct1)
  have n1: "\<forall>n input pc.
           (if True then newInputName ?e else oldInputName ?e) = Some n \<and> n \<noteq> []
           \<and> getInput ex_parent n = Some input \<and> connection ex_parent input = Some pc
           \<and> (hasOutput ex_statement \<or> hasPrevious ex_statement)
           \<longrightarrow> c = Returned \<and> map_option snd (plugged block') = Some pc"
    using b1' by (rule conjunct1 [OF conjunct2])
  have first: "c = Returned \<and> map_option snd (plugged block')
               = Some \<lparr>sourceBlock = ''p'', port = InputPort ''DO'', ctype = NEXT_STATEMENT\<rparr>"
    by (rule n1 [rule_format, of "''DO''" "\<lparr>name = ''DO'', input_type = Some NEXT_STATEMENT\<rparr>"])
      (simp add: ex_move_def gi ci hp)
  have tn: "truthy_value (if True then newInputName ?f else oldInputName ?f) = None"
    by (simp add: ex_move_def)
  have no: "\<not> hasOutput ex_statement" by (simp add: ex_statement_def)
  have pc: "previousConnection ex_statement
      = Some \<lparr>sourceBlock = ''s'', port = PreviousPort, ctype = PREVIOUS_STATEMENT\<rparr>"
    by (simp add: previousConnection_def ex_statement_def)
  have nc: "nextConnection ex_parent
      = Some \<lparr>sourceBlock = ''p'', port = NextPort, ctype = NEXT_STATEMENT\<rparr>"
    by (simp add: nextConnection_def ex_parent_def)
  from run_parent_connection [OF f1(1) h2 h3 f1(2) h5 h6 f1(3) s]
  obtain block'' where b2: "getBlockById ws'' ''s'' = Some block''
     \<and> (\<forall>n input pc.
           (if True then newInputName ?f else oldInputName ?f) = Some n \<and> n \<noteq> []
           \<and> getInput ex_parent n = Some input \<and> connection ex_parent input = Some pc
           \<and> (hasOutput ex_statement \<or> hasPrevious ex_statement)
           \<longrightarrow> d = Returned \<and> map_option snd (plugged block'') = Some pc)
     \<and> (\<forall>own target.
           plugged block'' = Some (own, target) \<and> port target = NextPort
           \<longrightarrow> truthy_value (if True then newInputName ?f else oldInputName ?f) = None
               \<and> ctype own = PREVIOUS_STATEMENT \<and> nextConnection ex_parent = Some target)
     \<and> (\<forall>own target.
           truthy_value (if True then newInputName ?f else oldInputName ?f) = None
           \<and> \<not> hasOutput ex_statement \<and> previousConnection ex_statement = Some own
           \<and> nextConnection ex_parent = Some target
           \<longrightarrow> d = Returned \<and> plugged block'' = Some (own, target))" ..
  note b2' = this
  have g2: "getBlockById ws'' ''s'' = Some block''" using b2' by (rule conjunct1)
  have n2: "\<forall>own target.
           truthy_value (if True then newInputName ?f else oldInputName ?f) = None
           \<and> \<not> hasOutput ex_statement \<and> previousConnection ex_statement = Some own
           \<and> nextConnection ex_parent = Some target
           \<longrightarrow> d = Returned \<and> plugged block'' = Some (own, target)"
    using b2' by (rule conjunct2 [OF conjunct2 [OF conjunct2]])
  have "d = Returned \<and> plugged block''
               = Some (\<lparr>sourceBlock = ''s'', port = PreviousPort, ctype = PREVIOUS_STATEMENT\<rparr>,
                       \<lparr>sourceBlock = ''p'', port = NextPort, ctype = NEXT_STATEMENT\<rparr>)"
    by (rule n2 [rule_format]) (simp add: ex_move_def no pc nc)
  then have second: "d = Returned" "map_option snd (plugged block'')
          = Some \<lparr>sourceBlock = ''p'', port = NextPort, ctype = NEXT_STATEMENT\<rparr>"
    by simp_all
  have A: "\<exists>ws' l block'.
      run True ?e ex_workspace = (Returned, ws', l)
      \<and> getBlockById ws' ''s'' = Some block'
      \<and> map_option snd (plugged block')
          = Some \<lparr>sourceBlock = ''p'', port = InputPort ''DO'', ctype = NEXT_STATEMENT\<rparr>"
    apply (rule exI [of _ ws'])
    apply (rule exI [of _ l])
    apply (rule exI [of _ block'])
    using r g1 first apply simp
    done
  have B: "\<exists>ws' l block'.
      run True ?f ex_workspace = (Returned, ws', l)
      \<and> getBlockById ws' ''s'' = Some block'
      \<and> map_option snd (plugged block')
          = Some \<lparr>sourceBlock = ''p'', port = NextPort, ctype = NEXT_STATEMENT\<rparr>"
    apply (rule exI [of _ ws''])
    apply (rule exI [of _ k])
    apply (rule exI [of _ block''])
    using s g2 second apply simp
    done
  from A B show ?thesis by (rule conjI)
qed

text \<open>
  C7: a defined coordinate with components \<open>a\<close> and \<open>b\<close> that round to integers below
  \<open>2^53\<close> in magnitude (the range in which the text of a number is the exact decimal
  text of the integer) is encoded as the decimal text of \<open>Math.round(a)\<close>, a comma, a
  space and the decimal text of \<open>Math.round(b)\<close>, and the static \<open>fromJson\<close> reads that
  text back as the coordinate of the rounded components. So (10.5, -3.5) is encoded as
  "11, -3" and read back as (11, -3).
\<close>

theorem coordinate_encoding:
  "(oldCoordinate e = Some (Coordinate (Num a) (Num b))
       \<and> \<bar>Math_round a\<bar> < 2 ^ 53 \<and> \<bar>Math_round b\<bar> < 2 ^ 53
     \<longrightarrow> toJson e ''oldCoordinate''
           = Some (JString (show_int (Math_round a) @ '', '' @ show_int (Math_round b)))
       \<and> oldCoordinate (fromJson ctx (toJson e) ws ev)
           = Some (Coordinate (Num (of_int (Math_round a))) (Num (of_int (Math_round b)))))
   \<and> (newCoordinate e = Some (Coordinate (Num a) (Num b))
       \<and> \<bar>Math_round a\<bar> < 2 ^ 53 \<and> \<bar>Math_round b\<bar> < 2 ^ 53
     \<longrightarrow> toJson e ''newCoordinate''
           = Some (JString (show_int (Math_round a) @ '', '' @ show_int (Math_round b)))
       \<and> newCoordinate (fromJson ctx (toJson e) ws ev)
           = Some (Coordinate (Num (of_int (Math_round a))) (Num (of_int (Math_round b)))))"
  using coordinate_text_truthy [of a b]
  by (simp add: fromJson_fields toJson_coordinate_strings toJson_oldCoordinate
      toJson_newCoordinate coordinate_text_round parse_coordinate_text
      del: get_string.simps)

theorem coordinate_encoding_witness:
  "toJson (ex_move ''b'' (None, None, Some (Coordinate (Num (21 / 2)) (Num (- 7 / 2))))
             (None, None, Some (Coordinate (Num 120) (Num (- 8))))) ''oldCoordinate''
   = Some (JString ''11, -3'')
   \<and> oldCoordinate (fromJson ex_context
        (toJson (ex_move ''b'' (None, None, Some (Coordinate (Num (21 / 2)) (Num (- 7 / 2))))
                   (None, None, Some (Coordinate (Num 120) (Num (- 8))))))
        ex_workspace None)
   = Some (Coordinate (Num 11) (Num (- 3)))
   \<and> toJson (ex_move ''b'' (None, None, Some (Coordinate (Num (21 / 2)) (Num (- 7 / 2))))
             (None, None, Some (Coordinate (Num 120) (Num (- 8))))) ''newCoordinate''
   = Some (JString ''120, -8'')
   \<and> newCoordinate (fromJson ex_context
        (toJson (ex_move ''b'' (None, None, Some (Coordinate (Num (21 / 2)) (Num (- 7 / 2))))
                   (None, None, Some (Coordinate (Num 120) (Num (- 8))))))
        ex_workspace None)
   = Some (Coordinate (Num 120) (Num (- 8)))"
  using coordinate_encoding [of "ex_move ''b'' (None, None, Some (Coordinate (Num (21 / 2)) (Num (- 7 / 2))))
             (None, None, Some (Coordinate (Num 120) (Num (- 8))))" "21 / 2" "- 7 / 2" ex_context ex_workspace None]
    coordinate_encoding [of "ex_move ''b'' (None, None, Some (Coordinate (Num (21 / 2)) (Num (- 7 / 2))))
             (None, None, Some (Coordinate (Num 120) (Num (- 8))))" "120" "- 8" ex_context ex_workspace None]
  by (simp add: ex_move_def round_eval)

text \<open>
  C8, as the code has it. The keys \<open>oldCoordinate\<close> and \<open>newCoordinate\<close> are present
  exactly when the coordinate is defined, and \<open>recordUndo\<close> exactly when it is false
  (with the value false). The keys \<open>oldParentId\<close>, \<open>oldInputName\<close>, \<open>newParentId\<close>
  and \<open>newInputName\<close> are always set, to the value of the field, which is
  \<open>undefined\<close> when the field is.
\<close>

theorem toJson_keys:
  "(''oldCoordinate'' \<in> dom (toJson e)) = (oldCoordinate e \<noteq> None)
   \<and> (''newCoordinate'' \<in> dom (toJson e)) = (newCoordinate e \<noteq> None)
   \<and> toJson e ''recordUndo'' = (if recordUndo e then None else Some (JBoolean False))
   \<and> toJson e ''oldParentId'' = Some (js_string (oldParentId e))
   \<and> toJson e ''oldInputName'' = Some (js_string (oldInputName e))
   \<and> toJson e ''newParentId'' = Some (js_string (newParentId e))
   \<and> toJson e ''newInputName'' = Some (js_string (newInputName e))"
  by (auto simp add: toJson_def BlockBase_toJson_def Let_def split: option.splits)

theorem toJson_keys_witness:
  "''oldCoordinate'' \<in> dom (toJson (ex_move ''b''
        (None, None, Some (Coordinate (Num 3) (Num 3))) (Some ''p'', Some ''A'', None)))
   \<and> ''newCoordinate'' \<notin> dom (toJson (ex_move ''b''
        (None, None, Some (Coordinate (Num 3) (Num 3))) (Some ''p'', Some ''A'', None)))
   \<and> ''recordUndo'' \<notin> dom (toJson (ex_move ''b''
        (None, None, Some (Coordinate (Num 3) (Num 3))) (Some ''p'', Some ''A'', None)))
   \<and> toJson (ex_move ''b''
        (None, None, Some (Coordinate (Num 3) (Num 3))) (Some ''p'', Some ''A'', None))
        ''oldParentId'' = Some JUndefined
   \<and> toJson (ex_move ''b''
        (None, None, Some (Coordinate (Num 3) (Num 3))) (Some ''p'', Some ''A'', None))
        ''newParentId'' = Some (JString ''p'')"
  using toJson_keys [of "ex_move ''b''
        (None, None, Some (Coordinate (Num 3) (Num 3))) (Some ''p'', Some ''A'', None)"]
  by (simp add: ex_move_def dom_def)

text \<open>
  C8 as stated fails: the event below has no old parent id, and the structure
  \<open>toJson\<close> gives for it has the key \<open>oldParentId\<close>.
\<close>

theorem toJson_keys_counterexample:
  "oldParentId (ex_move ''b''
        (None, None, Some (Coordinate (Num 3) (Num 3))) (Some ''p'', Some ''A'', None)) = None
   \<and> ''oldParentId'' \<in> dom (toJson (ex_move ''b''
        (None, None, Some (Coordinate (Num 3) (Num 3))) (Some ''p'', Some ''A'', None)))"
  by (simp add: ex_move_def toJson_def BlockBase_toJson_def Let_def)

text \<open>
  C9: for an event whose block exists, \<open>recordNew\<close> returns and the new half it
  records is either a parent id and no coordinate, or a coordinate and neither a parent
  id nor an input name. Which one is read from the block: the parent id is the block's
  parent, the input name is that of the parent's input holding the block, and the
  coordinate is the block's position when it has no parent. The constructor records
  the old half in the same way.
\<close>

theorem location_shapes:
  assumes "blockId e = Some bid" and "bid \<noteq> []" and "getBlockById ws bid = Some block"
  shows "(\<exists>e'. recordNew e ws = Inr e'
            \<and> ((newParentId e' \<noteq> None \<and> newCoordinate e' = None)
                \<or> (newParentId e' = None \<and> newInputName e' = None \<and> newCoordinate e' \<noteq> None))
            \<and> newParentId e' = getParent block
            \<and> (\<forall>p. getParent block = Some p
                  \<longrightarrow> newInputName e' = map_option name (getInputWithBlock ws p block))
            \<and> (getParent block = None
                  \<longrightarrow> newCoordinate e' = Some (getRelativeToSurfaceXY block)))
       \<and> (\<forall>b. block_id b = bid
            \<longrightarrow> (\<exists>e'. BlockMove_new ctx ws (Some b) = Inr e'
                 \<and> ((oldParentId e' \<noteq> None \<and> oldCoordinate e' = None)
                     \<or> (oldParentId e' = None \<and> oldInputName e' = None
                         \<and> oldCoordinate e' \<noteq> None))
                 \<and> oldParentId e' = getParent block
                 \<and> (\<forall>p. getParent block = Some p
                       \<longrightarrow> oldInputName e' = map_option name (getInputWithBlock ws p block))
                 \<and> (getParent block = None
                       \<longrightarrow> oldCoordinate e' = Some (getRelativeToSurfaceXY block))))"
proof (intro conjI allI impI)
  show "\<exists>e'. recordNew e ws = Inr e'
            \<and> ((newParentId e' \<noteq> None \<and> newCoordinate e' = None)
                \<or> (newParentId e' = None \<and> newInputName e' = None \<and> newCoordinate e' \<noteq> None))
            \<and> newParentId e' = getParent block
            \<and> (\<forall>p. getParent block = Some p
                  \<longrightarrow> newInputName e' = map_option name (getInputWithBlock ws p block))
            \<and> (getParent block = None
                  \<longrightarrow> newCoordinate e' = Some (getRelativeToSurfaceXY block))"
    by (cases "getParent block")
      (simp_all add: recordNew_def currentLocation_found [OF assms])
next
  fix b :: Block
  assume b: "block_id b = bid"
  let ?this = "if isShadow b then (BlockBase_new ctx ws (Some b))\<lparr>recordUndo := False\<rparr>
            else BlockBase_new ctx ws (Some b)"
  have "blockId ?this = Some bid" using b BlockMove_new_blockId [of b ctx ws] by simp
  note loc = currentLocation_found [OF this assms(2,3)]
  show "\<exists>e'. BlockMove_new ctx ws (Some b) = Inr e'
                 \<and> ((oldParentId e' \<noteq> None \<and> oldCoordinate e' = None)
                     \<or> (oldParentId e' = None \<and> oldInputName e' = None
                         \<and> oldCoordinate e' \<noteq> None))
                 \<and> oldParentId e' = getParent block
                 \<and> (\<forall>p. getParent block = Some p
                       \<longrightarrow> oldInputName e' = map_option name (getInputWithBlock ws p block))
                 \<and> (getParent block = None
                       \<longrightarrow> oldCoordinate e' = Some (getRelativeToSurfaceXY block))"
    by (cases "getParent block") (simp_all add: BlockMove_new_def Let_def loc)
qed

theorem location_shapes_witness:
  "(\<exists>e'. recordNew (ex_move ''h'' (None, None, None) (None, None, None)) ex_workspace = Inr e'
        \<and> newParentId e' = Some ''p'' \<and> newInputName e' = Some ''A'' \<and> newCoordinate e' = None)
   \<and> (\<exists>e'. BlockMove_new ex_context ex_workspace (Some ex_block) = Inr e'
        \<and> oldParentId e' = None \<and> oldInputName e' = None
        \<and> oldCoordinate e' = Some (Coordinate (Num 3) (Num 3)))"
proof -
  have h: "blockId (ex_move ''h'' (None, None, None) (None, None, None)) = Some ''h''"
    "''h'' \<noteq> []" "getBlockById ex_workspace ''h'' = Some ex_shadow"
    by (simp_all add: ex_defs getBlockById_def)
  have b: "blockId (ex_move ''b'' (None, None, None) (None, None, None)) = Some ''b''"
    "''b'' \<noteq> []" "getBlockById ex_workspace ''b'' = Some ex_block"
    by (simp_all add: ex_defs getBlockById_def)
  have ph: "getParent ex_shadow = Some ''p''" by (simp add: getParent_def ex_shadow_def)
  have ih: "map_option name (getInputWithBlock ex_workspace ''p'' ex_shadow) = Some ''A''"
    by code_simp
  have pb: "getParent ex_block = None" "getRelativeToSurfaceXY ex_block = Coordinate (Num 3) (Num 3)"
    "block_id ex_block = ''b''"
    by (simp_all add: getParent_def getRelativeToSurfaceXY_def ex_block_def)
  from location_shapes [OF h, of ex_context] ph ih
  have first: "\<exists>e'. recordNew (ex_move ''h'' (None, None, None) (None, None, None)) ex_workspace = Inr e'
        \<and> newParentId e' = Some ''p'' \<and> newInputName e' = Some ''A'' \<and> newCoordinate e' = None"
    by auto
  from location_shapes [OF b, of ex_context] pb
  have second: "\<exists>e'. BlockMove_new ex_context ex_workspace (Some ex_block) = Inr e'
        \<and> oldParentId e' = None \<and> oldInputName e' = None
        \<and> oldCoordinate e' = Some (Coordinate (Num 3) (Num 3))"
    by auto
  from first second show ?thesis by simp
qed

text \<open>
  C10: an event constructed from a shadow block has \<open>recordUndo\<close> false; one
  constructed from a block that is no shadow has the default of the context.
\<close>

theorem shadow_recordUndo:
  "BlockMove_new ctx ws (Some b) = Inr e
   \<Longrightarrow> recordUndo e = (if isShadow b then False else getRecordUndo ctx)"
  by (auto simp add: BlockMove_new_def BlockBase_new_def Let_def split: sum.splits)

theorem shadow_recordUndo_witness:
  "(\<exists>e. BlockMove_new ex_context ex_workspace (Some ex_shadow) = Inr e \<and> \<not> recordUndo e)
   \<and> (\<exists>e. BlockMove_new ex_context ex_workspace (Some ex_block) = Inr e \<and> recordUndo e)"
proof -
  obtain e where e: "BlockMove_new ex_context ex_workspace (Some ex_shadow) = Inr e"
    by (simp add: BlockMove_new_def currentLocation_def BlockBase_new_def ex_defs
        getBlockById_def getParent_def)
  obtain e' where e': "BlockMove_new ex_context ex_workspace (Some ex_block) = Inr e'"
    by (simp add: BlockMove_new_def currentLocation_def BlockBase_new_def ex_defs
        getBlockById_def getParent_def)
  from shadow_recordUndo [OF e] shadow_recordUndo [OF e'] e e' show ?thesis
    by (simp add: ex_defs)
qed

end
